theory Spec2Isabelle
  imports Complex_Main "HOL-Library.AList"
begin

section \<open>Python values, exceptions and string formatting\<close>

text \<open>
  The module \<^verbatim>\<open>pysolhttpclient/Http/HttpClient.py\<close> is Python 2 code (it iterates
  dictionaries with \<^verbatim>\<open>iteritems\<close>), so \<^verbatim>\<open>/\<close> between two integers is floor
  division. Every exception the module raises itself is \<^verbatim>\<open>Exception(fmt.format(args))\<close>;
  it is kept as the format string of the source together with the arguments passed to
  \<^verbatim>\<open>format\<close>. \<^verbatim>\<open>gevent.Timeout\<close> derives from \<^verbatim>\<open>BaseException\<close>, so
  \<^verbatim>\<open>except Exception\<close> does not catch it. Exceptions raised inside the libraries
  (URL parsing, geventhttpclient, urllib3) are ordinary \<^verbatim>\<open>Exception\<close> subclasses,
  identified by a name.
\<close>

datatype pyval = PyStr string | PyInt int | PyFloat rat

datatype exn =
    Timeout
  | Exception string "pyval list"
  | LibraryError string

fun is_Exception :: "exn \<Rightarrow> bool" where
  "is_Exception Timeout = False"
| "is_Exception (Exception fmt args) = True"
| "is_Exception (LibraryError name) = True"

text \<open>Truthiness of an optional string: \<^verbatim>\<open>None\<close> and \<^verbatim>\<open>""\<close> are false.\<close>

fun truthy :: "string option \<Rightarrow> bool" where
  "truthy None = False"
| "truthy (Some s) = (s \<noteq> [])"

text \<open>How \<^verbatim>\<open>"{0}".format(x)\<close> prints integers, booleans and \<^verbatim>\<open>None\<close>.\<close>

fun str_nat :: "nat \<Rightarrow> string" where
  "str_nat n =
     (if n < 10 then [''0123456789'' ! n]
      else str_nat (n div 10) @ [''0123456789'' ! (n mod 10)])"

declare str_nat.simps [simp del]

definition str_int :: "int \<Rightarrow> string" where
  "str_int i = (if i < 0 then CHR ''-'' # str_nat (nat (- i)) else str_nat (nat i))"

definition str_bool :: "bool \<Rightarrow> string" where
  "str_bool b = (if b then ''True'' else ''False'')"

definition str_opt_str :: "string option \<Rightarrow> string" where
  "str_opt_str x = (case x of None \<Rightarrow> ''None'' | Some s \<Rightarrow> s)"

definition str_opt_int :: "int option \<Rightarrow> string" where
  "str_opt_int x = (case x of None \<Rightarrow> ''None'' | Some i \<Rightarrow> str_int i)"

section \<open>Data model\<close>

text \<open>
  Modelled from the spec: the request and response value objects (\<^verbatim>\<open>HttpRequest\<close>,
  \<^verbatim>\<open>HttpResponse\<close>) are not part of the source file; their fields are the ones the
  client reads and writes, and a fresh response has the zero values of the spec (status
  code and content length 0, no body, no headers, no exception). The header mapping of
  the request is called \<open>req_headers\<close> here.
\<close>

record HttpRequest =
  uri :: string
  "method" :: "string option"
  post_data :: "string option"
  req_headers :: "(string \<times> string) list"
  connection_timeout_ms :: int
  network_timeout_ms :: int
  general_timeout_ms :: int
  http_concurrency :: int
  https_insecure :: bool
  disable_ipv6 :: bool
  http_proxy_host :: "string option"
  http_proxy_port :: "int option"
  force_http_implementation :: "int option"

text \<open>A response header value is a scalar, or a list once the name was seen twice.\<close>

datatype hval = Single string | Multi "string list"

record HttpResponse =
  http_request :: "HttpRequest option"
  http_implementation :: "int option"
  status_code :: int
  buffer :: "string option"
  content_length :: int
  headers :: "(string \<times> hval) list"
  elapsed_ms :: "int option"
  exception :: "exn option"

definition HttpResponse_init :: HttpResponse where
  "HttpResponse_init =
     \<lparr>http_request = None, http_implementation = None, status_code = 0, buffer = None,
      content_length = 0, headers = [], elapsed_ms = None, exception = None\<rparr>"

definition HTTP_IMPL_AUTO :: "int option" where "HTTP_IMPL_AUTO = None"
definition HTTP_IMPL_GEVENT :: "int option" where "HTTP_IMPL_GEVENT = Some 1"
definition HTTP_IMPL_URLLIB3 :: "int option" where "HTTP_IMPL_URLLIB3 = Some 3"

text \<open>\<^verbatim>\<open>geventhttpclient.client.PROTO_HTTPS\<close>, and what a parsed \<^verbatim>\<open>URL\<close> offers.\<close>

definition PROTO_HTTPS :: string where "PROTO_HTTPS = ''https''"

record URL =
  host :: string
  port :: int
  scheme :: string
  path :: "string option"
  request_uri :: string

text \<open>
  Pool entries. An object is a pair of its identity (the number of the allocation that
  made it) and its constructor arguments.
\<close>

type_synonym 'a obj = "nat \<times> 'a"

record HTTPClient =
  hc_url :: URL
  hc_insecure :: bool
  hc_disable_ipv6 :: bool
  hc_connection_timeout :: int
  hc_network_timeout :: int
  hc_concurrency :: int
  hc_proxy_host :: "string option"
  hc_proxy_port :: "int option"
  hc_headers :: "(string \<times> string) list"

datatype u3_pool =
    PoolManager nat nat
  | ProxyManager nat nat string

text \<open>
  The client object. The two locks are kept as the number of times each was acquired.
\<close>

record HttpClient =
  gevent_pool_max :: nat
  gevent_locker :: nat
  gevent_pool :: "(string \<times> HTTPClient obj) list"
  u3_basic_pool :: "u3_pool obj"
  u3_proxy_pool_max :: nat
  u3_proxy_locker :: nat
  u3_proxy_pool :: "(string \<times> u3_pool obj) list"
  next_oid :: nat

definition HttpClient_init :: HttpClient where
  "HttpClient_init =
     \<lparr>gevent_pool_max = 1024, gevent_locker = 0, gevent_pool = [],
      u3_basic_pool = (0, PoolManager 1024 1024),
      u3_proxy_pool_max = 1024, u3_proxy_locker = 0, u3_proxy_pool = [],
      next_oid = 1\<rparr>"

section \<open>The libraries, the clock and the deadline as an environment\<close>

datatype gevent_call =
    http_get string "(string \<times> string) list"
  | http_delete string "string option" "(string \<times> string) list"
  | http_head string "(string \<times> string) list"
  | http_put string "string option" "(string \<times> string) list"
  | http_post string "string option" "(string \<times> string) list"

record gevent_response =
  g_status_code :: int
  g_read :: "string + string"
  g_content_length :: "int option"
  g_headers_index :: "(string \<times> string) list"

datatype body_arg = NoBody | Body "string option"

record Retry =
  total :: nat
  connect :: nat
  read :: nat
  redirect :: nat

record urlopen_call =
  uo_method :: string
  uo_url :: string
  uo_body :: body_arg
  uo_headers :: "(string \<times> string) list"
  uo_redirect :: bool
  uo_retries :: Retry

datatype u3_conn =
    Manager "u3_pool obj"
  | ConnectionFromUrl "u3_pool obj" string

record u3_response =
  u3_status :: int
  u3_headers :: "(string \<times> string) list"
  u3_data :: string

text \<open>
  What the collaborators answer. A library call answers \<open>Inl name\<close> when it raises.
  \<open>gevent_request\<close> answers \<open>None\<close> for a response object that tests false.
  \<open>timeout_at = Some k\<close> says that the timer started by \<^verbatim>\<open>gevent.with_timeout\<close>
  throws \<^verbatim>\<open>Timeout\<close> into the call at its \<open>k\<close>-th switch to the hub (a
  \<^verbatim>\<open>SolBase.sleep(0)\<close> or a blocking library call, counted from 0); \<open>None\<close> says
  that the timer does not expire while the call runs. \<open>mscurrent_entry\<close> and
  \<open>mscurrent_exit\<close> are the readings of the millisecond clock at the start of
  \<^verbatim>\<open>go_http\<close> and in its \<^verbatim>\<open>finally\<close> block, so that
  \<^verbatim>\<open>SolBase.msdiff(ms)\<close> is their difference.

  One call runs at a time: the locks are free when they are taken, so taking one is no
  switch. The constructors \<^verbatim>\<open>HTTPClient.from_url\<close>, \<^verbatim>\<open>ProxyManager\<close> and
  \<^verbatim>\<open>Retry\<close> are taken to build their object, and logging is left out.
\<close>

record env =
  URL_of :: "string \<Rightarrow> string + URL"
  gevent_request :: "HTTPClient obj \<Rightarrow> gevent_call \<Rightarrow> string + gevent_response option"
  connection_from_url :: "string \<Rightarrow> string option"
  urlopen :: "u3_conn \<Rightarrow> urlopen_call \<Rightarrow> string + u3_response"
  timeout_at :: "nat option"
  mscurrent_entry :: int
  mscurrent_exit :: int

section \<open>Execution: state, exceptions and switches to the hub\<close>

record exec_state =
  client :: HttpClient
  response :: HttpResponse
  switches :: nat

type_synonym 'a exec = "exec_state \<Rightarrow> (exn + 'a) \<times> exec_state"

definition ret :: "'a \<Rightarrow> 'a exec" where
  "ret x = (\<lambda>s. (Inr x, s))"

definition raise :: "exn \<Rightarrow> 'a exec" where
  "raise e = (\<lambda>s. (Inl e, s))"

definition bnd :: "'a exec \<Rightarrow> ('a \<Rightarrow> 'b exec) \<Rightarrow> 'b exec" where
  "bnd m f = (\<lambda>s. case m s of (Inl e, s') \<Rightarrow> (Inl e, s') | (Inr x, s') \<Rightarrow> f x s')"

definition set_response :: "(HttpResponse \<Rightarrow> HttpResponse) \<Rightarrow> unit exec" where
  "set_response f = (\<lambda>s. (Inr (), s\<lparr>response := f (response s)\<rparr>))"

definition set_client :: "(HttpClient \<Rightarrow> HttpClient) \<Rightarrow> unit exec" where
  "set_client f = (\<lambda>s. (Inr (), s\<lparr>client := f (client s)\<rparr>))"

text \<open>\<^verbatim>\<open>SolBase.sleep(0)\<close>: a switch to the hub, where the deadline may strike.\<close>

definition sleep0 :: "env \<Rightarrow> unit exec" where
  "sleep0 e = (\<lambda>s.
     (if timeout_at e = Some (switches s) then Inl Timeout else Inr (),
      s\<lparr>switches := Suc (switches s)\<rparr>))"

text \<open>A library call that does not block, and one that waits on the network.\<close>

definition lib :: "string + 'a \<Rightarrow> 'a exec" where
  "lib r = (case r of Inl name \<Rightarrow> raise (LibraryError name) | Inr x \<Rightarrow> ret x)"

definition blocking :: "env \<Rightarrow> string + 'a \<Rightarrow> 'a exec" where
  "blocking e r = bnd (sleep0 e) (\<lambda>_. lib r)"

definition get_client :: "HttpClient exec" where
  "get_client = (\<lambda>s. (Inr (client s), s))"

definition get_response :: "HttpResponse exec" where
  "get_response = (\<lambda>s. (Inr (response s), s))"

text \<open>\<^verbatim>\<open>try: m except C: h\<close> and \<^verbatim>\<open>try: m finally: fin\<close>.\<close>

definition try_except :: "'a exec \<Rightarrow> (exn \<Rightarrow> bool) \<Rightarrow> (exn \<Rightarrow> 'a exec) \<Rightarrow> 'a exec" where
  "try_except m catches h = (\<lambda>s.
     case m s of
       (Inl ex, s') \<Rightarrow> if catches ex then h ex s' else (Inl ex, s')
     | (Inr x, s') \<Rightarrow> (Inr x, s'))"

definition try_finally :: "'a exec \<Rightarrow> unit exec \<Rightarrow> 'a exec" where
  "try_finally m fin = (\<lambda>s.
     case m s of (r, s') \<Rightarrow>
       (case fin s' of (Inl ex, s'') \<Rightarrow> (Inl ex, s'') | (Inr u, s'') \<Rightarrow> (r, s'')))"

text \<open>
  \<^verbatim>\<open>gevent.with_timeout(seconds, f, ...)\<close> starts the timer and runs \<open>f\<close> in the
  calling greenlet: switches are counted from here, and whatever \<open>f\<close> raises passes
  through. Outside of it no timer runs.
\<close>

definition with_timeout :: "'a exec \<Rightarrow> 'a exec" where
  "with_timeout m = (\<lambda>s. m (s\<lparr>switches := 0\<rparr>))"

definition no_deadline :: "env \<Rightarrow> env" where
  "no_deadline e = e\<lparr>timeout_at := None\<rparr>"

section \<open>Header accumulator\<close>

text \<open>\<^verbatim>\<open>HttpClient._add_header(d, k, v)\<close>; the dictionary is returned updated.\<close>

definition add_header :: "(string \<times> hval) list \<Rightarrow> string \<Rightarrow> string \<Rightarrow> (string \<times> hval) list" where
  "add_header d k v =
     (case map_of d k of
        None \<Rightarrow> AList.update k (Single v) d
      | Some (Multi vs) \<Rightarrow> AList.update k (Multi (vs @ [v])) d
      | Some (Single x) \<Rightarrow> AList.update k (Multi [x, v]) d)"

definition add_headers :: "(string \<times> string) list \<Rightarrow> (string \<times> hval) list \<Rightarrow> (string \<times> hval) list" where
  "add_headers kvs d = fold (\<lambda>(k, v) d'. add_header d' k v) kvs d"

section \<open>Pool registries\<close>

definition gevent_key :: "URL \<Rightarrow> HttpRequest \<Rightarrow> string" where
  "gevent_key url rq =
     host url @ ''#'' @
     str_int (port url) @ ''#'' @
     str_bool (scheme url = PROTO_HTTPS) @ ''#'' @
     str_bool (https_insecure rq) @ ''#'' @
     str_bool (disable_ipv6 rq) @ ''#'' @
     str_int (connection_timeout_ms rq div 1000) @ ''#'' @
     str_int (network_timeout_ms rq div 1000) @ ''#'' @
     str_int (http_concurrency rq) @ ''#'' @
     str_opt_str (http_proxy_host rq) @ ''#'' @
     str_opt_int (http_proxy_port rq) @ ''#''"

text \<open>\<^verbatim>\<open>HTTPClient.from_url(url, insecure=..., ...)\<close>: the arguments of the source.\<close>

definition HTTPClient_from_url :: "URL \<Rightarrow> HttpRequest \<Rightarrow> HTTPClient" where
  "HTTPClient_from_url url rq =
     \<lparr>hc_url = url,
      hc_insecure = https_insecure rq,
      hc_disable_ipv6 = disable_ipv6 rq,
      hc_connection_timeout = connection_timeout_ms rq div 1000,
      hc_network_timeout = network_timeout_ms rq div 1000,
      hc_concurrency = http_concurrency rq,
      hc_proxy_host = http_proxy_host rq,
      hc_proxy_port = http_proxy_port rq,
      hc_headers = []\<rparr>"

text \<open>
  \<^verbatim>\<open>gevent_from_pool\<close>. No other task runs during a switch here, so the entry found
  by \<^verbatim>\<open>key in self._gevent_pool\<close> is the one read after \<^verbatim>\<open>SolBase.sleep(0)\<close>.
\<close>

definition gevent_from_pool :: "env \<Rightarrow> URL \<Rightarrow> HttpRequest \<Rightarrow> HTTPClient obj exec" where
  "gevent_from_pool e url rq =
     (let key = gevent_key url rq in
      bnd get_client (\<lambda>c.
      case map_of (gevent_pool c) key of
        Some http \<Rightarrow> bnd (sleep0 e) (\<lambda>_. ret http)
      | None \<Rightarrow>
          bnd (set_client (\<lambda>c. c\<lparr>gevent_locker := Suc (gevent_locker c)\<rparr>)) (\<lambda>_.
          if length (gevent_pool c) \<ge> gevent_pool_max c
          then raise (Exception ''gevent pool maxed, cur={0}, max={1}''
                        [PyInt (int (length (gevent_pool c))), PyInt (int (gevent_pool_max c))])
          else
            (let http = (next_oid c, HTTPClient_from_url url rq) in
             bnd (set_client (\<lambda>c. c\<lparr>gevent_pool := AList.update key http (gevent_pool c),
                                      next_oid := Suc (next_oid c)\<rparr>)) (\<lambda>_.
             bnd (sleep0 e) (\<lambda>_.
             ret http))))))"

definition u3_key :: "HttpRequest \<Rightarrow> string" where
  "u3_key rq =
     str_opt_str (http_proxy_host rq) @ ''#'' @ str_opt_int (http_proxy_port rq) @ ''#''"

text \<open>\<^verbatim>\<open>"http://{0}:{1}".format(http_proxy_host, http_proxy_port)\<close>.\<close>

definition proxy_url_of :: "HttpRequest \<Rightarrow> string" where
  "proxy_url_of rq =
     ''http://'' @ str_opt_str (http_proxy_host rq) @ '':'' @ str_opt_int (http_proxy_port rq)"

definition urllib3_from_pool :: "env \<Rightarrow> HttpRequest \<Rightarrow> u3_pool obj exec" where
  "urllib3_from_pool e rq =
     (if \<not> truthy (http_proxy_host rq)
      then bnd (sleep0 e) (\<lambda>_. bnd get_client (\<lambda>c. ret (u3_basic_pool c)))
      else
        (let key = u3_key rq in
         bnd get_client (\<lambda>c.
         case map_of (u3_proxy_pool c) key of
           Some p \<Rightarrow> bnd (sleep0 e) (\<lambda>_. ret p)
         | None \<Rightarrow>
             bnd (set_client (\<lambda>c. c\<lparr>u3_proxy_locker := Suc (u3_proxy_locker c)\<rparr>)) (\<lambda>_.
             if length (u3_proxy_pool c) \<ge> u3_proxy_pool_max c
             then raise (Exception ''u3 pool maxed, cur={0}, max={1}''
                           [PyInt (int (length (u3_proxy_pool c))),
                            PyInt (int (u3_proxy_pool_max c))])
             else
               (let proxy_url = proxy_url_of rq;
                    p = (next_oid c, ProxyManager 1024 1024 proxy_url) in
                bnd (set_client (\<lambda>c. c\<lparr>u3_proxy_pool := AList.update key p (u3_proxy_pool c),
                                         next_oid := Suc (next_oid c)\<rparr>)) (\<lambda>_.
                bnd (sleep0 e) (\<lambda>_.
                ret p)))))))"

section \<open>Backend A: geventhttpclient\<close>

text \<open>
  The method dispatch of \<^verbatim>\<open>_go_gevent\<close>: which call on the pooled client the request
  leads to, or which exception.
\<close>

definition gevent_call_of :: "HttpRequest \<Rightarrow> URL \<Rightarrow> exn + gevent_call" where
  "gevent_call_of rq url =
     (let auto = (if truthy (post_data rq)
                  then Inr (http_post (request_uri url) (post_data rq) (req_headers rq))
                  else Inr (http_get (request_uri url) (req_headers rq))) in
      case method rq of
        None \<Rightarrow> auto
      | Some m \<Rightarrow>
          if m = [] then auto
          else if m = ''GET'' then Inr (http_get (request_uri url) (req_headers rq))
          else if m = ''DELETE'' then
            Inr (http_delete (request_uri url) (post_data rq) (req_headers rq))
          else if m = ''HEAD'' then Inr (http_head (request_uri url) (req_headers rq))
          else if m = ''PUT'' then
            Inr (http_put (request_uri url) (post_data rq) (req_headers rq))
          else if m = ''POST'' then
            Inr (http_post (request_uri url) (post_data rq) (req_headers rq))
          else if m = ''PATCH'' then Inl (Exception ''Unsupported gevent method={0}'' [PyStr m])
          else if m = ''OPTIONS'' then Inl (Exception ''Unsupported gevent method={0}'' [PyStr m])
          else if m = ''TRACE'' then Inl (Exception ''Unsupported gevent method={0}'' [PyStr m])
          else Inl (Exception ''Invalid gevent method={0}'' [PyStr m]))"

text \<open>The content length \<^verbatim>\<open>_go_gevent\<close> stores, from the response and the body read.\<close>

definition gevent_content_length :: "gevent_response \<Rightarrow> string \<Rightarrow> int" where
  "gevent_content_length rsp buf =
     (case g_content_length rsp of
        Some n \<Rightarrow> if n \<noteq> 0 then n else if buf \<noteq> [] then int (length buf) else 0
      | None \<Rightarrow> if buf \<noteq> [] then int (length buf) else 0)"

definition go_gevent :: "env \<Rightarrow> HttpRequest \<Rightarrow> unit exec" where
  "go_gevent e rq =
     bnd (set_response (\<lambda>r. r\<lparr>http_implementation := HTTP_IMPL_GEVENT\<rparr>)) (\<lambda>_.
     bnd (lib (URL_of e (uri rq))) (\<lambda>url0.
     bnd (sleep0 e) (\<lambda>_.
     let url = (case path url0 of None \<Rightarrow> url0\<lparr>path := Some ''/''\<rparr> | Some p \<Rightarrow> url0) in
     bnd (gevent_from_pool e url rq) (\<lambda>http.
     bnd (sleep0 e) (\<lambda>_.
     bnd (case gevent_call_of rq url of
            Inl ex \<Rightarrow> raise ex
          | Inr c \<Rightarrow> blocking e (gevent_request e http c)) (\<lambda>response.
     bnd (sleep0 e) (\<lambda>_.
     case response of
       None \<Rightarrow> raise (Exception ''No response from http'' [])
     | Some rsp \<Rightarrow>
         bnd (set_response (\<lambda>r. r\<lparr>status_code := g_status_code rsp\<rparr>)) (\<lambda>_.
         bnd (blocking e (g_read rsp)) (\<lambda>buf.
         bnd (set_response (\<lambda>r. r\<lparr>buffer := Some buf\<rparr>)) (\<lambda>_.
         bnd (sleep0 e) (\<lambda>_.
         bnd (set_response (\<lambda>r. r\<lparr>content_length := gevent_content_length rsp buf\<rparr>)) (\<lambda>_.
         bnd (set_response (\<lambda>r. r\<lparr>headers := add_headers (g_headers_index rsp) (headers r)\<rparr>)) (\<lambda>_.
         sleep0 e)))))))))))))"

section \<open>Backend B: urllib3\<close>

definition no_retries :: Retry where
  "no_retries = \<lparr>total = 0, connect = 0, read = 0, redirect = 0\<rparr>"

text \<open>The method dispatch of \<^verbatim>\<open>_go_urllib3\<close>: the arguments of \<^verbatim>\<open>conn.urlopen\<close>.\<close>

definition urlopen_call_of :: "HttpRequest \<Rightarrow> exn + urlopen_call" where
  "urlopen_call_of rq =
     (let auto = (if truthy (post_data rq)
                  then Inr \<lparr>uo_method = ''POST'', uo_url = uri rq, uo_body = Body (post_data rq),
                            uo_headers = req_headers rq, uo_redirect = False,
                            uo_retries = no_retries\<rparr>
                  else Inr \<lparr>uo_method = ''GET'', uo_url = uri rq, uo_body = NoBody,
                            uo_headers = req_headers rq, uo_redirect = False,
                            uo_retries = no_retries\<rparr>) in
      case method rq of
        None \<Rightarrow> auto
      | Some m \<Rightarrow>
          if m = [] then auto
          else if m \<in> set [''GET'', ''HEAD'', ''OPTIONS'', ''TRACE''] then
            Inr \<lparr>uo_method = m, uo_url = uri rq, uo_body = NoBody,
                 uo_headers = req_headers rq, uo_redirect = False, uo_retries = no_retries\<rparr>
          else if m \<in> set [''POST'', ''PUT'', ''PATCH'', ''DELETE''] then
            Inr \<lparr>uo_method = m, uo_url = uri rq, uo_body = Body (post_data rq),
                 uo_headers = req_headers rq, uo_redirect = False, uo_retries = no_retries\<rparr>
          else Inl (Exception ''Invalid urllib3 method={0}'' [PyStr m]))"

definition go_urllib3 :: "env \<Rightarrow> HttpRequest \<Rightarrow> unit exec" where
  "go_urllib3 e rq =
     bnd (set_response (\<lambda>r. r\<lparr>http_implementation := HTTP_IMPL_URLLIB3\<rparr>)) (\<lambda>_.
     bnd (urllib3_from_pool e rq) (\<lambda>cur_pool.
     bnd (sleep0 e) (\<lambda>_.
     bnd (if truthy (http_proxy_host rq) then ret (Manager cur_pool)
          else (case connection_from_url e (uri rq) of
                  Some name \<Rightarrow> raise (LibraryError name)
                | None \<Rightarrow> ret (ConnectionFromUrl cur_pool (uri rq)))) (\<lambda>conn.
     bnd (sleep0 e) (\<lambda>_.
     bnd (sleep0 e) (\<lambda>_.
     bnd (case urlopen_call_of rq of
            Inl ex \<Rightarrow> raise ex
          | Inr c \<Rightarrow> blocking e (urlopen e conn c)) (\<lambda>r.
     bnd (sleep0 e) (\<lambda>_.
     bnd (set_response (\<lambda>h. h\<lparr>status_code := u3_status r\<rparr>)) (\<lambda>_.
     bnd (set_response (\<lambda>h. h\<lparr>headers := add_headers (u3_headers r) (headers h)\<rparr>)) (\<lambda>_.
     bnd (set_response (\<lambda>h. h\<lparr>buffer := Some (u3_data r)\<rparr>)) (\<lambda>_.
     bnd (set_response (\<lambda>h. h\<lparr>content_length := int (length (u3_data r))\<rparr>)) (\<lambda>_.
     sleep0 e))))))))))))"

section \<open>Dispatcher\<close>

text \<open>The backend \<^verbatim>\<open>_go_http_internal\<close> fires, from the request and its parsed URI.\<close>

definition resolve_impl :: "HttpRequest \<Rightarrow> URL \<Rightarrow> int option" where
  "resolve_impl rq url =
     (let impl = force_http_implementation rq;
          impl = (if impl = HTTP_IMPL_AUTO then HTTP_IMPL_URLLIB3 else impl) in
      if truthy (http_proxy_host rq) \<and> scheme url = PROTO_HTTPS then HTTP_IMPL_URLLIB3
      else impl)"

text \<open>The body of the \<^verbatim>\<open>try\<close> of \<^verbatim>\<open>_go_http_internal\<close>, then the whole of it.\<close>

definition go_http_internal_body :: "env \<Rightarrow> HttpRequest \<Rightarrow> unit exec" where
  "go_http_internal_body e rq =
     bnd (lib (URL_of e (uri rq))) (\<lambda>url.
     bnd (sleep0 e) (\<lambda>_.
     let impl = resolve_impl rq url in
     if impl = HTTP_IMPL_GEVENT then bnd (go_gevent e rq) (\<lambda>_. sleep0 e)
     else if impl = HTTP_IMPL_URLLIB3 then bnd (go_urllib3 e rq) (\<lambda>_. sleep0 e)
     else raise (Exception ''Invalid force_http_implementation'' [])))"

definition go_http_internal :: "env \<Rightarrow> HttpRequest \<Rightarrow> unit exec" where
  "go_http_internal e rq =
     try_except (go_http_internal_body e rq) is_Exception
       (\<lambda>ex. bnd (set_response (\<lambda>r. r\<lparr>exception := Some ex\<rparr>)) (\<lambda>_. raise ex))"

text \<open>
  \<^verbatim>\<open>float(http_request.general_timeout_ms) / 1000.0\<close>, taken as the exact quotient.
\<close>

definition general_timeout_sec :: "HttpRequest \<Rightarrow> rat" where
  "general_timeout_sec rq = of_int (general_timeout_ms rq) / 1000"

definition timeout_exception :: "HttpRequest \<Rightarrow> exn" where
  "timeout_exception rq =
     Exception ''Timeout while processing, general_timeout_sec={0}''
       [PyFloat (general_timeout_sec rq)]"

text \<open>
  \<^verbatim>\<open>go_http\<close>. The response object is local to the call: it is the \<open>response\<close> of
  the state, created here. \<open>Inr\<close> is the response returned, \<open>Inl\<close> the exception that
  leaves \<^verbatim>\<open>go_http\<close>.
\<close>

definition go_http :: "env \<Rightarrow> HttpRequest \<Rightarrow> HttpResponse exec" where
  "go_http e rq =
     (let ms = mscurrent_entry e in
      bnd (set_response (\<lambda>r. HttpResponse_init)) (\<lambda>_.
      bnd (try_finally
             (try_except
                (bnd (set_response (\<lambda>r. r\<lparr>http_request := Some rq\<rparr>)) (\<lambda>_.
                 bnd (with_timeout (go_http_internal e rq)) (\<lambda>_.
                 sleep0 (no_deadline e))))
                (\<lambda>ex. ex = Timeout)
                (\<lambda>ex. set_response (\<lambda>r. r\<lparr>exception := Some (timeout_exception rq)\<rparr>)))
             (bnd (sleep0 (no_deadline e)) (\<lambda>_.
              set_response (\<lambda>r. r\<lparr>elapsed_ms := Some (mscurrent_exit e - ms)\<rparr>)))) (\<lambda>_.
      get_response)))"

text \<open>A call of \<^verbatim>\<open>go_http\<close> on a client: the outcome and the client afterwards.\<close>

definition call_go_http :: "env \<Rightarrow> HttpClient \<Rightarrow> HttpRequest \<Rightarrow> (exn + HttpResponse) \<times> HttpClient" where
  "call_go_http e c rq =
     (case go_http e rq \<lparr>client = c, response = HttpResponse_init, switches = 0\<rparr> of
        (r, s) \<Rightarrow> (r, client s))"

section \<open>Properties and example inputs\<close>

text \<open>
  The registry invariant: both capacities are 1024, neither registry holds more entries
  than its capacity, and no key occurs twice.
\<close>

definition pool_inv :: "HttpClient \<Rightarrow> bool" where
  "pool_inv c =
     (gevent_pool_max c = 1024 \<and> u3_proxy_pool_max c = 1024 \<and>
      length (gevent_pool c) \<le> gevent_pool_max c \<and>
      length (u3_proxy_pool c) \<le> u3_proxy_pool_max c \<and>
      distinct (map fst (gevent_pool c)) \<and> distinct (map fst (u3_proxy_pool c)))"

text \<open>A run keeps a property of the state; a run never ends in \<^verbatim>\<open>Timeout\<close>.\<close>

definition stable :: "(exec_state \<Rightarrow> bool) \<Rightarrow> 'a exec \<Rightarrow> bool" where
  "stable I m = (\<forall>s. I s \<longrightarrow> I (snd (m s)))"

definition timeout_free :: "'a exec \<Rightarrow> bool" where
  "timeout_free m = (\<forall>s. fst (m s) \<noteq> Inl Timeout)"

text \<open>The client after a sequence of calls of \<^verbatim>\<open>go_http\<close>, each in its own environment.\<close>

fun run_calls :: "(env \<times> HttpRequest) list \<Rightarrow> HttpClient \<Rightarrow> HttpClient" where
  "run_calls [] c = c"
| "run_calls ((e, rq) # calls) c = run_calls calls (snd (call_go_http e c rq))"

text \<open>The state in which \<^verbatim>\<open>go_http\<close> starts \<^verbatim>\<open>_go_http_internal\<close> under the timer.\<close>

definition entry_state :: "HttpRequest \<Rightarrow> exec_state \<Rightarrow> exec_state" where
  "entry_state rq s =
     s\<lparr>response := HttpResponse_init\<lparr>http_request := Some rq\<rparr>, switches := 0\<rparr>"

text \<open>
  Example inputs: a server that answers 200 with body \<open>ok\<close> and one header, reached at
  an https URI; a request with the defaults; variations of both.
\<close>

definition example_url :: URL where
  "example_url =
     \<lparr>host = ''example.org'', port = 443, scheme = ''https'', path = Some ''/'',
      request_uri = ''/''\<rparr>"

definition example_env :: env where
  "example_env =
     \<lparr>URL_of = (\<lambda>u. Inr example_url),
      gevent_request = (\<lambda>h c. Inr (Some \<lparr>g_status_code = 200, g_read = Inr ''ok'',
                                          g_content_length = Some 2,
                                          g_headers_index = [(''X-Test'', ''1'')]\<rparr>)),
      connection_from_url = (\<lambda>u. None),
      urlopen = (\<lambda>conn c. Inr \<lparr>u3_status = 200, u3_headers = [(''X-Test'', ''1'')],
                                u3_data = ''ok''\<rparr>),
      timeout_at = None, mscurrent_entry = 0, mscurrent_exit = 5\<rparr>"

definition example_request :: HttpRequest where
  "example_request =
     \<lparr>uri = ''https://example.org/'', method = None, post_data = None, req_headers = [],
      connection_timeout_ms = 10000, network_timeout_ms = 10000, general_timeout_ms = 30000,
      http_concurrency = 8128, https_insecure = True, disable_ipv6 = True,
      http_proxy_host = None, http_proxy_port = None, force_http_implementation = None\<rparr>"

definition example_state :: exec_state where
  "example_state = \<lparr>client = HttpClient_init, response = HttpResponse_init, switches = 0\<rparr>"

text \<open>Backend A forced, through a proxy, to an https URI.\<close>

definition forced_gevent_proxy_request :: HttpRequest where
  "forced_gevent_proxy_request =
     example_request\<lparr>force_http_implementation := HTTP_IMPL_GEVENT,
                     http_proxy_host := Some ''proxy'', http_proxy_port := Some 3128\<rparr>"

text \<open>Backend A forced, no proxy.\<close>

definition forced_gevent_request :: HttpRequest where
  "forced_gevent_request = example_request\<lparr>force_http_implementation := HTTP_IMPL_GEVENT\<rparr>"

text \<open>A method token that no backend knows.\<close>

definition foo_request :: HttpRequest where
  "foo_request = example_request\<lparr>method := Some ''FOO''\<rparr>"

text \<open>The deadline strikes while Backend A reads the body (its seventh switch).\<close>

definition slow_body_env :: env where
  "slow_body_env = example_env\<lparr>timeout_at := Some 6\<rparr>"

text \<open>The deadline strikes at the first switch.\<close>

definition expired_env :: env where
  "expired_env = example_env\<lparr>timeout_at := Some 0\<rparr>"

text \<open>A \<^verbatim>\<open>HEAD\<close> answered with a \<^verbatim>\<open>content-length\<close> header and no body.\<close>

definition head_env :: env where
  "head_env =
     example_env\<lparr>urlopen := (\<lambda>conn c. Inr \<lparr>u3_status = 200,
                                             u3_headers = [(''content-length'', ''5'')],
                                             u3_data = []\<rparr>)\<rparr>"

definition head_request :: HttpRequest where
  "head_request = example_request\<lparr>method := Some ''HEAD''\<rparr>"

text \<open>
  A client whose two registries hold 1024 entries each (hosts \<open>h0\<close>, \<open>h1\<close>, ... and
  proxies \<open>x0\<close>, \<open>x1\<close>, ...).
\<close>

definition full_client :: HttpClient where
  "full_client =
     HttpClient_init
       \<lparr>gevent_pool :=
          map (\<lambda>i. (gevent_key (example_url\<lparr>host := CHR ''h'' # str_nat i\<rparr>) example_request,
                     (Suc i, HTTPClient_from_url (example_url\<lparr>host := CHR ''h'' # str_nat i\<rparr>)
                               example_request)))
            [0..<1024],
        u3_proxy_pool :=
          map (\<lambda>i. (u3_key (example_request\<lparr>http_proxy_host := Some (CHR ''x'' # str_nat i)\<rparr>),
                     (1025 + i, ProxyManager 1024 1024
                        (proxy_url_of (example_request\<lparr>http_proxy_host := Some (CHR ''x'' # str_nat i)\<rparr>)))))
            [0..<1024],
        next_oid := 2049\<rparr>"

text \<open>A request through a proxy.\<close>

definition proxy_request :: HttpRequest where
  "proxy_request =
     example_request\<lparr>http_proxy_host := Some ''proxy'', http_proxy_port := Some 3128\<rparr>"

text \<open>
  A server that answers with the method it was asked with as the body: the call that
  reaches the transport shows in the response.
\<close>

definition echo_env :: env where
  "echo_env =
     example_env
       \<lparr>gevent_request := (\<lambda>h c. Inr (Some \<lparr>g_status_code = 200,
            g_read = Inr (case c of
                            http_get u hs \<Rightarrow> ''GET''
                          | http_delete u b hs \<Rightarrow> ''DELETE''
                          | http_head u hs \<Rightarrow> ''HEAD''
                          | http_put u b hs \<Rightarrow> ''PUT''
                          | http_post u b hs \<Rightarrow> ''POST''),
            g_content_length = None, g_headers_index = []\<rparr>)),
        urlopen := (\<lambda>conn c. Inr \<lparr>u3_status = 200, u3_headers = [],
                                    u3_data = uo_method c\<rparr>)\<rparr>"


section \<open>Reasoning about runs\<close>

lemma stable_ret: "stable I (ret x)"
  by (simp add: stable_def ret_def)

lemma stable_raise: "stable I (raise ex)"
  by (simp add: stable_def raise_def)

lemma stable_bnd: "stable I m \<Longrightarrow> (\<And>x. stable I (f x)) \<Longrightarrow> stable I (bnd m f)"
  unfolding stable_def bnd_def
proof (intro allI impI)
  fix s
  assume m: "\<forall>s. I s \<longrightarrow> I (snd (m s))"
    and f: "\<And>x. \<forall>s. I s \<longrightarrow> I (snd (f x s))" and s: "I s"
  obtain r s' where ms: "m s = (r, s')" by (cases "m s")
  from m s ms have "I s'" by (metis snd_conv)
  then show "I (snd (case m s of (Inl e, s') \<Rightarrow> (Inl e, s') | (Inr x, s') \<Rightarrow> f x s'))"
    using f ms by (cases r) auto
qed

lemma stable_lib: "stable I (lib r)"
  by (cases r) (simp_all add: lib_def stable_ret stable_raise)

lemma stable_get_client: "stable I get_client"
  by (simp add: stable_def get_client_def)

lemma stable_get_response: "stable I get_response"
  by (simp add: stable_def get_response_def)

lemma stable_try_except:
  "stable I m \<Longrightarrow> (\<And>ex. stable I (h ex)) \<Longrightarrow> stable I (try_except m c h)"
  unfolding stable_def try_except_def
proof (intro allI impI)
  fix s
  assume m: "\<forall>s. I s \<longrightarrow> I (snd (m s))"
    and h: "\<And>ex. \<forall>s. I s \<longrightarrow> I (snd (h ex s))" and s: "I s"
  obtain r s' where ms: "m s = (r, s')" by (cases "m s")
  from m s ms have "I s'" by (metis snd_conv)
  then show "I (snd (case m s of (Inl ex, s') \<Rightarrow> if c ex then h ex s' else (Inl ex, s')
                      | (Inr x, s') \<Rightarrow> (Inr x, s')))"
    using h ms by (cases r) auto
qed

lemma stable_try_finally:
  "stable I m \<Longrightarrow> stable I fin \<Longrightarrow> stable I (try_finally m fin)"
  unfolding stable_def try_finally_def
proof (intro allI impI)
  fix s
  assume m: "\<forall>s. I s \<longrightarrow> I (snd (m s))" and h: "\<forall>s. I s \<longrightarrow> I (snd (fin s))" and s: "I s"
  obtain r s' where ms: "m s = (r, s')" by (cases "m s")
  from m s ms have s': "I s'" by (metis snd_conv)
  obtain r2 s2 where fs: "fin s' = (r2, s2)" by (cases "fin s'")
  from h s' fs have "I s2" by (metis snd_conv)
  then show "I (snd (case m s of (r, s') \<Rightarrow>
       (case fin s' of (Inl ex, s'') \<Rightarrow> (Inl ex, s'') | (Inr u, s'') \<Rightarrow> (r, s''))))"
    using ms fs by (cases r2) auto
qed

text \<open>Properties of the client alone: switches and the response do not touch it.\<close>

lemma stable_client_sleep0: "stable (\<lambda>s. P (client s)) (sleep0 e)"
  by (simp add: stable_def sleep0_def)

lemma stable_client_set_response: "stable (\<lambda>s. P (client s)) (set_response f)"
  by (simp add: stable_def set_response_def)

lemma stable_client_blocking: "stable (\<lambda>s. P (client s)) (blocking e r)"
  by (simp add: blocking_def stable_bnd stable_client_sleep0 stable_lib)

lemma stable_client_with_timeout:
  "stable (\<lambda>s. P (client s)) m \<Longrightarrow> stable (\<lambda>s. P (client s)) (with_timeout m)"
  by (simp add: stable_def with_timeout_def)

lemmas stable_client_rules =
  stable_bnd stable_lib stable_ret stable_raise stable_get_client stable_get_response
  stable_client_sleep0 stable_client_set_response stable_client_blocking
  stable_try_finally stable_try_except stable_client_with_timeout

section \<open>The registries, case by case\<close>

lemma length_update_fresh:
  assumes "map_of al k = None"
  shows "length (AList.update k v al) = Suc (length al)"
proof -
  from assms have "k \<notin> set (map fst al)" by (simp add: map_of_eq_None_iff)
  then have "map fst (AList.update k v al) = map fst al @ [k]" by (simp add: update_keys)
  then have "length (map fst (AList.update k v al)) = Suc (length al)" by simp
  then show ?thesis by simp
qed

lemma gevent_from_pool_hit:
  assumes "map_of (gevent_pool (client s)) (gevent_key url rq) = Some h"
  shows "gevent_from_pool e url rq s =
           (if timeout_at e = Some (switches s) then Inl Timeout else Inr h,
            s\<lparr>switches := Suc (switches s)\<rparr>)"
  using assms
  by (simp add: gevent_from_pool_def Let_def bnd_def get_client_def sleep0_def ret_def)

lemma gevent_from_pool_maxed:
  assumes "map_of (gevent_pool (client s)) (gevent_key url rq) = None"
    and "gevent_pool_max (client s) \<le> length (gevent_pool (client s))"
  shows "gevent_from_pool e url rq s =
           (Inl (Exception ''gevent pool maxed, cur={0}, max={1}''
                  [PyInt (int (length (gevent_pool (client s)))),
                   PyInt (int (gevent_pool_max (client s)))]),
            s\<lparr>client := (client s)\<lparr>gevent_locker := Suc (gevent_locker (client s))\<rparr>\<rparr>)"
  using assms
  by (simp add: gevent_from_pool_def Let_def bnd_def get_client_def set_client_def raise_def)

lemma gevent_from_pool_alloc:
  assumes "map_of (gevent_pool (client s)) (gevent_key url rq) = None"
    and "length (gevent_pool (client s)) < gevent_pool_max (client s)"
  shows "gevent_from_pool e url rq s =
           (if timeout_at e = Some (switches s) then Inl Timeout
            else Inr (next_oid (client s), HTTPClient_from_url url rq),
            s\<lparr>client := (client s)
                 \<lparr>gevent_locker := Suc (gevent_locker (client s)),
                  gevent_pool := AList.update (gevent_key url rq)
                     (next_oid (client s), HTTPClient_from_url url rq) (gevent_pool (client s)),
                  next_oid := Suc (next_oid (client s))\<rparr>,
               switches := Suc (switches s)\<rparr>)"
  using assms
  by (simp add: gevent_from_pool_def Let_def bnd_def get_client_def set_client_def sleep0_def
      ret_def)

lemma urllib3_from_pool_basic:
  assumes "\<not> truthy (http_proxy_host rq)"
  shows "urllib3_from_pool e rq s =
           (if timeout_at e = Some (switches s) then Inl Timeout
            else Inr (u3_basic_pool (client s)),
            s\<lparr>switches := Suc (switches s)\<rparr>)"
  using assms
  by (simp add: urllib3_from_pool_def bnd_def get_client_def sleep0_def ret_def)

lemma urllib3_from_pool_hit:
  assumes "truthy (http_proxy_host rq)"
    and "map_of (u3_proxy_pool (client s)) (u3_key rq) = Some p"
  shows "urllib3_from_pool e rq s =
           (if timeout_at e = Some (switches s) then Inl Timeout else Inr p,
            s\<lparr>switches := Suc (switches s)\<rparr>)"
  using assms
  by (simp add: urllib3_from_pool_def Let_def bnd_def get_client_def sleep0_def ret_def)

lemma urllib3_from_pool_maxed:
  assumes "truthy (http_proxy_host rq)"
    and "map_of (u3_proxy_pool (client s)) (u3_key rq) = None"
    and "u3_proxy_pool_max (client s) \<le> length (u3_proxy_pool (client s))"
  shows "urllib3_from_pool e rq s =
           (Inl (Exception ''u3 pool maxed, cur={0}, max={1}''
                  [PyInt (int (length (u3_proxy_pool (client s)))),
                   PyInt (int (u3_proxy_pool_max (client s)))]),
            s\<lparr>client := (client s)\<lparr>u3_proxy_locker := Suc (u3_proxy_locker (client s))\<rparr>\<rparr>)"
  using assms
  by (simp add: urllib3_from_pool_def Let_def bnd_def get_client_def set_client_def raise_def)

lemma urllib3_from_pool_alloc:
  assumes "truthy (http_proxy_host rq)"
    and "map_of (u3_proxy_pool (client s)) (u3_key rq) = None"
    and "length (u3_proxy_pool (client s)) < u3_proxy_pool_max (client s)"
  shows "urllib3_from_pool e rq s =
           (if timeout_at e = Some (switches s) then Inl Timeout
            else Inr (next_oid (client s), ProxyManager 1024 1024 (proxy_url_of rq)),
            s\<lparr>client := (client s)
                 \<lparr>u3_proxy_locker := Suc (u3_proxy_locker (client s)),
                  u3_proxy_pool := AList.update (u3_key rq)
                     (next_oid (client s), ProxyManager 1024 1024 (proxy_url_of rq))
                     (u3_proxy_pool (client s)),
                  next_oid := Suc (next_oid (client s))\<rparr>,
               switches := Suc (switches s)\<rparr>)"
  using assms
  by (simp add: urllib3_from_pool_def Let_def bnd_def get_client_def set_client_def sleep0_def
      ret_def)

lemma gevent_from_pool_inv: "stable (\<lambda>s. pool_inv (client s)) (gevent_from_pool e url rq)"
  unfolding stable_def
proof (intro allI impI)
  fix s :: exec_state
  assume inv: "pool_inv (client s)"
  show "pool_inv (client (snd (gevent_from_pool e url rq s)))"
  proof (cases "map_of (gevent_pool (client s)) (gevent_key url rq)")
    case (Some h)
    then show ?thesis using inv by (simp add: gevent_from_pool_hit)
  next
    case None
    show ?thesis
    proof (cases "length (gevent_pool (client s)) < gevent_pool_max (client s)")
      case True
      with None inv show ?thesis
        by (simp add: gevent_from_pool_alloc pool_inv_def length_update_fresh distinct_update)
    next
      case False
      with None inv show ?thesis
        by (simp add: gevent_from_pool_maxed pool_inv_def)
    qed
  qed
qed

lemma urllib3_from_pool_inv: "stable (\<lambda>s. pool_inv (client s)) (urllib3_from_pool e rq)"
  unfolding stable_def
proof (intro allI impI)
  fix s :: exec_state
  assume inv: "pool_inv (client s)"
  show "pool_inv (client (snd (urllib3_from_pool e rq s)))"
  proof (cases "truthy (http_proxy_host rq)")
    case False
    then show ?thesis using inv by (simp add: urllib3_from_pool_basic)
  next
    case proxy: True
    show ?thesis
    proof (cases "map_of (u3_proxy_pool (client s)) (u3_key rq)")
      case (Some p)
      then show ?thesis using inv proxy by (simp add: urllib3_from_pool_hit)
    next
      case None
      show ?thesis
      proof (cases "length (u3_proxy_pool (client s)) < u3_proxy_pool_max (client s)")
        case True
        with None inv proxy show ?thesis
          by (simp add: urllib3_from_pool_alloc pool_inv_def length_update_fresh distinct_update)
      next
        case False
        with None inv proxy show ?thesis
          by (simp add: urllib3_from_pool_maxed pool_inv_def)
      qed
    qed
  qed
qed

text \<open>The shared pool of Backend B is assigned by the constructor only.\<close>

lemma gevent_from_pool_basic_pool:
  "stable (\<lambda>s. u3_basic_pool (client s) = p) (gevent_from_pool e url rq)"
  by (simp add: stable_def gevent_from_pool_def Let_def bnd_def get_client_def set_client_def
      sleep0_def ret_def raise_def split: option.split)

lemma urllib3_from_pool_basic_pool:
  "stable (\<lambda>s. u3_basic_pool (client s) = p) (urllib3_from_pool e rq)"
  by (simp add: stable_def urllib3_from_pool_def Let_def bnd_def get_client_def set_client_def
      sleep0_def ret_def raise_def split: option.split)

text \<open>What the registries keep, the backends and the dispatcher keep.\<close>

lemma stable_client_go_gevent:
  assumes "\<And>url. stable (\<lambda>s. P (client s)) (gevent_from_pool e url rq)"
  shows "stable (\<lambda>s. P (client s)) (go_gevent e rq)"
  unfolding go_gevent_def Let_def
  by (auto intro!: stable_client_rules assms split: sum.split option.split)

lemma stable_client_go_urllib3:
  assumes "stable (\<lambda>s. P (client s)) (urllib3_from_pool e rq)"
  shows "stable (\<lambda>s. P (client s)) (go_urllib3 e rq)"
  unfolding go_urllib3_def Let_def
  by (auto intro!: stable_client_rules assms split: sum.split option.split)

lemma stable_client_go_http:
  assumes "\<And>url. stable (\<lambda>s. P (client s)) (gevent_from_pool e url rq)"
    and "stable (\<lambda>s. P (client s)) (urllib3_from_pool e rq)"
  shows "stable (\<lambda>s. P (client s)) (go_http e rq)"
  unfolding go_http_def go_http_internal_def go_http_internal_body_def Let_def
  by (auto intro!: stable_client_rules stable_client_go_gevent stable_client_go_urllib3 assms)

lemma call_go_http_keeps:
  assumes "\<And>e rq url. stable (\<lambda>s. P (client s)) (gevent_from_pool e url rq)"
    and "\<And>e rq. stable (\<lambda>s. P (client s)) (urllib3_from_pool e rq)"
    and "P c"
  shows "P (snd (call_go_http e c rq))"
proof -
  have "stable (\<lambda>s. P (client s)) (go_http e rq)"
    by (rule stable_client_go_http) (rule assms)+
  then have "P (client (snd (go_http e rq
                  \<lparr>client = c, response = HttpResponse_init, switches = 0\<rparr>)))"
    using assms(3) by (simp add: stable_def)
  then show ?thesis
    by (simp add: call_go_http_def case_prod_beta)
qed

lemma run_calls_keeps:
  assumes "\<And>e rq url. stable (\<lambda>s. P (client s)) (gevent_from_pool e url rq)"
    and "\<And>e rq. stable (\<lambda>s. P (client s)) (urllib3_from_pool e rq)"
    and "P c"
  shows "P (run_calls calls c)"
  using assms(3)
proof (induction calls arbitrary: c)
  case Nil
  then show ?case by simp
next
  case (Cons a calls)
  obtain e rq where a: "a = (e, rq)" by (cases a)
  have "P (snd (call_go_http e c rq))"
    using assms(1,2) Cons.prems by (rule call_go_http_keeps)
  then show ?case using Cons.IH a by simp
qed

lemma pool_inv_init: "pool_inv HttpClient_init"
  by (simp add: pool_inv_def HttpClient_init_def)

lemma run_calls_pool_inv: "pool_inv (run_calls calls HttpClient_init)"
  by (rule run_calls_keeps) (rule gevent_from_pool_inv urllib3_from_pool_inv pool_inv_init)+

lemma run_calls_basic_pool:
  "u3_basic_pool (run_calls calls HttpClient_init) = (0, PoolManager 1024 1024)"
proof (rule run_calls_keeps)
  show "u3_basic_pool HttpClient_init = (0, PoolManager 1024 1024)"
    by (simp add: HttpClient_init_def)
qed (rule gevent_from_pool_basic_pool urllib3_from_pool_basic_pool)+


section \<open>Evaluating runs on the example inputs\<close>

lemmas run_defs =
  call_go_http_def go_http_def go_http_internal_def go_http_internal_body_def
  go_gevent_def go_urllib3_def gevent_from_pool_def urllib3_from_pool_def
  gevent_call_of_def urlopen_call_of_def gevent_content_length_def resolve_impl_def
  gevent_key_def u3_key_def proxy_url_of_def HTTPClient_from_url_def
  add_headers_def add_header_def timeout_exception_def general_timeout_sec_def
  bnd_def ret_def raise_def set_response_def set_client_def get_client_def get_response_def
  sleep0_def lib_def blocking_def try_except_def try_finally_def with_timeout_def
  no_deadline_def no_retries_def Let_def
  str_int_def str_bool_def str_opt_str_def str_opt_int_def str_nat.simps
  HttpClient_init_def HttpResponse_init_def
  HTTP_IMPL_AUTO_def HTTP_IMPL_GEVENT_def HTTP_IMPL_URLLIB3_def PROTO_HTTPS_def

lemmas example_defs =
  example_env_def example_request_def example_url_def example_state_def
  forced_gevent_proxy_request_def forced_gevent_request_def foo_request_def
  slow_body_env_def expired_env_def head_env_def head_request_def proxy_request_def
  echo_env_def


section \<open>Header accumulator: the merge law\<close>

lemma add_header_fresh:
  "map_of d k = None \<Longrightarrow> map_of (add_header d k v) k = Some (Single v)"
  by (simp add: add_header_def update_conv')

lemma add_header_single:
  "map_of d k = Some (Single x) \<Longrightarrow> map_of (add_header d k v) k = Some (Multi [x, v])"
  by (simp add: add_header_def update_conv')

lemma add_header_multi:
  "map_of d k = Some (Multi vs) \<Longrightarrow> map_of (add_header d k v) k = Some (Multi (vs @ [v]))"
  by (simp add: add_header_def update_conv')

lemma add_headers_multi:
  "map_of d k = Some (Multi ws) \<Longrightarrow>
   map_of (add_headers (map (Pair k) vs) d) k = Some (Multi (ws @ vs))"
proof (induction vs arbitrary: d ws)
  case Nil
  then show ?case by (simp add: add_headers_def)
next
  case (Cons v vs)
  have "map_of (add_header d k v) k = Some (Multi (ws @ [v]))"
    using Cons.prems by (rule add_header_multi)
  from Cons.IH [OF this] show ?case by (simp add: add_headers_def)
qed

text \<open>
  C5. Under a key that the header mapping does not hold yet, one merged value is stored
  as that scalar; a second merge makes the two-element list; a third gives
  \<open>[v1, v2, v3]\<close>; and every later merge appends, so that merging \<open>v1, v2, vs\<close> in
  this order leaves the list \<open>v1 # v2 # vs\<close>.
\<close>

theorem add_header_merge_law:
  assumes "map_of d k = None"
  shows "map_of (add_header d k v1) k = Some (Single v1) \<and>
         map_of (add_header (add_header d k v1) k v2) k = Some (Multi [v1, v2]) \<and>
         map_of (add_header (add_header (add_header d k v1) k v2) k v3) k
           = Some (Multi [v1, v2, v3]) \<and>
         map_of (add_headers (map (Pair k) (v1 # v2 # vs)) d) k = Some (Multi (v1 # v2 # vs))"
proof -
  have 1: "map_of (add_header d k v1) k = Some (Single v1)"
    using assms by (rule add_header_fresh)
  have 2: "map_of (add_header (add_header d k v1) k v2) k = Some (Multi [v1, v2])"
    using 1 by (rule add_header_single)
  have 3: "map_of (add_header (add_header (add_header d k v1) k v2) k v3) k
             = Some (Multi [v1, v2, v3])"
    using add_header_multi [OF 2] by simp
  have 4: "map_of (add_headers (map (Pair k) (v1 # v2 # vs)) d) k = Some (Multi (v1 # v2 # vs))"
    using add_headers_multi [OF 2, of vs] by (simp add: add_headers_def)
  from 1 2 3 4 show ?thesis by simp
qed

theorem add_header_merge_law_witness:
  "map_of ([(''Server'', Single ''x'')] :: (string \<times> hval) list) ''Set-Cookie'' = None \<and>
   map_of (add_header [(''Server'', Single ''x'')] ''Set-Cookie'' ''a'') ''Set-Cookie''
     = Some (Single ''a'') \<and>
   map_of (add_header (add_header (add_header [(''Server'', Single ''x'')]
             ''Set-Cookie'' ''a'') ''Set-Cookie'' ''b'') ''Set-Cookie'' ''c'') ''Set-Cookie''
     = Some (Multi [''a'', ''b'', ''c''])"
proof -
  have h: "map_of ([(''Server'', Single ''x'')] :: (string \<times> hval) list) ''Set-Cookie'' = None"
    by simp
  show ?thesis
    using h add_header_merge_law [OF h, of "''a''" "''b''" "''c''" "[]"] by simp
qed

section \<open>Method dispatch of the two backends\<close>

text \<open>
  C6. A request whose method is not set (\<^verbatim>\<open>None\<close> or the empty string) leads, on
  Backend A, to \<^verbatim>\<open>http.post\<close> with the body when the body is non-empty and to
  \<^verbatim>\<open>http.get\<close> otherwise, and on Backend B to \<^verbatim>\<open>urlopen\<close> with method
  \<^verbatim>\<open>POST\<close> and the body when the body is non-empty and with method \<^verbatim>\<open>GET\<close> and
  no body otherwise.
\<close>

theorem auto_method_detection:
  assumes "\<not> truthy (method rq)"
  shows "gevent_call_of rq url =
           Inr (if truthy (post_data rq)
                then http_post (request_uri url) (post_data rq) (req_headers rq)
                else http_get (request_uri url) (req_headers rq)) \<and>
         urlopen_call_of rq =
           Inr (if truthy (post_data rq)
                then \<lparr>uo_method = ''POST'', uo_url = uri rq, uo_body = Body (post_data rq),
                      uo_headers = req_headers rq, uo_redirect = False,
                      uo_retries = no_retries\<rparr>
                else \<lparr>uo_method = ''GET'', uo_url = uri rq, uo_body = NoBody,
                      uo_headers = req_headers rq, uo_redirect = False,
                      uo_retries = no_retries\<rparr>)"
  using assms by (cases "method rq") (simp_all add: gevent_call_of_def urlopen_call_of_def)

theorem auto_method_detection_witness:
  "\<not> truthy (method (example_request\<lparr>post_data := Some ''x=1''\<rparr>)) \<and>
   gevent_call_of (example_request\<lparr>post_data := Some ''x=1''\<rparr>) example_url
     = Inr (http_post ''/'' (Some ''x=1'') []) \<and>
   uo_method (projr (urlopen_call_of (example_request\<lparr>post_data := Some ''x=1''\<rparr>))) = ''POST'' \<and>
   \<not> truthy (method (example_request\<lparr>method := Some []\<rparr>)) \<and>
   gevent_call_of (example_request\<lparr>method := Some []\<rparr>) example_url = Inr (http_get ''/'' []) \<and>
   uo_method (projr (urlopen_call_of (example_request\<lparr>method := Some []\<rparr>))) = ''GET'' \<and>
   map_sum id buffer (fst (call_go_http echo_env HttpClient_init
       (example_request\<lparr>post_data := Some ''x=1''\<rparr>))) = Inr (Some ''POST'') \<and>
   map_sum id buffer (fst (call_go_http echo_env HttpClient_init example_request))
     = Inr (Some ''GET'') \<and>
   map_sum id buffer (fst (call_go_http echo_env HttpClient_init
       (forced_gevent_request\<lparr>post_data := Some ''x=1''\<rparr>))) = Inr (Some ''POST'') \<and>
   map_sum id buffer (fst (call_go_http echo_env HttpClient_init
       (forced_gevent_request\<lparr>post_data := Some []\<rparr>))) = Inr (Some ''GET'')"
proof -
  have runs:
    "map_sum id buffer (fst (call_go_http echo_env HttpClient_init
       (example_request\<lparr>post_data := Some ''x=1''\<rparr>))) = Inr (Some ''POST'')"
    "map_sum id buffer (fst (call_go_http echo_env HttpClient_init example_request))
       = Inr (Some ''GET'')"
    "map_sum id buffer (fst (call_go_http echo_env HttpClient_init
       (forced_gevent_request\<lparr>post_data := Some ''x=1''\<rparr>))) = Inr (Some ''POST'')"
    "map_sum id buffer (fst (call_go_http echo_env HttpClient_init
       (forced_gevent_request\<lparr>post_data := Some []\<rparr>))) = Inr (Some ''GET'')"
    by (simp_all add: run_defs example_defs)
  have h1: "\<not> truthy (method (example_request\<lparr>post_data := Some ''x=1''\<rparr>))"
    by (simp add: example_request_def)
  have h2: "\<not> truthy (method (example_request\<lparr>method := Some []\<rparr>))"
    by (simp add: example_request_def)
  show ?thesis
    using h1 h2
      auto_method_detection [OF h1, of example_url]
      auto_method_detection [OF h2, of example_url]
    by (simp add: runs) (simp add: example_request_def example_url_def)
qed

text \<open>
  C7. With a method token set: Backend A calls \<^verbatim>\<open>get\<close>, \<^verbatim>\<open>head\<close>,
  \<^verbatim>\<open>put\<close>, \<^verbatim>\<open>post\<close>, \<^verbatim>\<open>delete\<close> for \<^verbatim>\<open>GET\<close>, \<^verbatim>\<open>HEAD\<close>,
  \<^verbatim>\<open>PUT\<close>, \<^verbatim>\<open>POST\<close>, \<^verbatim>\<open>DELETE\<close>, raises the "Unsupported gevent method"
  exception for \<^verbatim>\<open>PATCH\<close>, \<^verbatim>\<open>OPTIONS\<close>, \<^verbatim>\<open>TRACE\<close> and the "Invalid gevent
  method" exception for every other token; Backend B opens \<^verbatim>\<open>GET\<close>, \<^verbatim>\<open>HEAD\<close>,
  \<^verbatim>\<open>OPTIONS\<close>, \<^verbatim>\<open>TRACE\<close> without a body and \<^verbatim>\<open>POST\<close>, \<^verbatim>\<open>PUT\<close>,
  \<^verbatim>\<open>PATCH\<close>, \<^verbatim>\<open>DELETE\<close> with the body of the request, and raises the "Invalid
  urllib3 method" exception for every other token.
\<close>

theorem supported_method_tables:
  assumes "method rq = Some m" and "m \<noteq> []"
  shows "gevent_call_of rq url =
           (if m = ''GET'' then Inr (http_get (request_uri url) (req_headers rq))
            else if m = ''HEAD'' then Inr (http_head (request_uri url) (req_headers rq))
            else if m = ''PUT'' then
              Inr (http_put (request_uri url) (post_data rq) (req_headers rq))
            else if m = ''POST'' then
              Inr (http_post (request_uri url) (post_data rq) (req_headers rq))
            else if m = ''DELETE'' then
              Inr (http_delete (request_uri url) (post_data rq) (req_headers rq))
            else if m \<in> {''PATCH'', ''OPTIONS'', ''TRACE''} then
              Inl (Exception ''Unsupported gevent method={0}'' [PyStr m])
            else Inl (Exception ''Invalid gevent method={0}'' [PyStr m])) \<and>
         urlopen_call_of rq =
           (if m \<in> {''GET'', ''HEAD'', ''OPTIONS'', ''TRACE''} then
              Inr \<lparr>uo_method = m, uo_url = uri rq, uo_body = NoBody,
                   uo_headers = req_headers rq, uo_redirect = False, uo_retries = no_retries\<rparr>
            else if m \<in> {''POST'', ''PUT'', ''PATCH'', ''DELETE''} then
              Inr \<lparr>uo_method = m, uo_url = uri rq, uo_body = Body (post_data rq),
                   uo_headers = req_headers rq, uo_redirect = False, uo_retries = no_retries\<rparr>
            else Inl (Exception ''Invalid urllib3 method={0}'' [PyStr m]))"
  using assms by (simp add: gevent_call_of_def urlopen_call_of_def)

theorem supported_method_tables_witness:
  "method (example_request\<lparr>method := Some ''PATCH''\<rparr>) = Some ''PATCH'' \<and> ''PATCH'' \<noteq> [] \<and>
   gevent_call_of (example_request\<lparr>method := Some ''PATCH''\<rparr>) example_url
     = Inl (Exception ''Unsupported gevent method={0}'' [PyStr ''PATCH'']) \<and>
   uo_body (projr (urlopen_call_of (example_request\<lparr>method := Some ''PATCH''\<rparr>))) = Body None \<and>
   method foo_request = Some ''FOO'' \<and>
   gevent_call_of foo_request example_url
     = Inl (Exception ''Invalid gevent method={0}'' [PyStr ''FOO'']) \<and>
   urlopen_call_of foo_request = Inl (Exception ''Invalid urllib3 method={0}'' [PyStr ''FOO'']) \<and>
   fst (call_go_http echo_env HttpClient_init (forced_gevent_request\<lparr>method := Some ''PATCH''\<rparr>))
     = Inl (Exception ''Unsupported gevent method={0}'' [PyStr ''PATCH'']) \<and>
   map_sum id buffer (fst (call_go_http echo_env HttpClient_init
       (example_request\<lparr>method := Some ''PATCH''\<rparr>))) = Inr (Some ''PATCH'') \<and>
   map_sum id buffer (fst (call_go_http echo_env HttpClient_init
       (forced_gevent_request\<lparr>method := Some ''DELETE''\<rparr>))) = Inr (Some ''DELETE'')"
proof -
  have runs:
    "fst (call_go_http echo_env HttpClient_init (forced_gevent_request\<lparr>method := Some ''PATCH''\<rparr>))
       = Inl (Exception ''Unsupported gevent method={0}'' [PyStr ''PATCH''])"
    "map_sum id buffer (fst (call_go_http echo_env HttpClient_init
       (example_request\<lparr>method := Some ''PATCH''\<rparr>))) = Inr (Some ''PATCH'')"
    "map_sum id buffer (fst (call_go_http echo_env HttpClient_init
       (forced_gevent_request\<lparr>method := Some ''DELETE''\<rparr>))) = Inr (Some ''DELETE'')"
    by (simp_all add: run_defs example_defs)
  have h1: "method (example_request\<lparr>method := Some ''PATCH''\<rparr>) = Some ''PATCH''"
    by simp
  have h2: "method foo_request = Some ''FOO''"
    by (simp add: foo_request_def)
  have n1: "''PATCH'' \<noteq> []" and n2: "''FOO'' \<noteq> []"
    by simp_all
  show ?thesis
    using h1 h2
      supported_method_tables [OF h1 n1, of example_url]
      supported_method_tables [OF h2 n2, of example_url]
    by (simp add: runs) (simp add: example_request_def)
qed


section \<open>Backend selection\<close>

text \<open>
  C2, as the claim states it, fails: a request that forces Backend A, with a proxy host
  and an https URI, is resolved to Backend B, and \<^verbatim>\<open>go_http\<close> answers it through
  Backend B.
\<close>

theorem forced_gevent_overridden_counterexample:
  "force_http_implementation forced_gevent_proxy_request = HTTP_IMPL_GEVENT \<and>
   truthy (http_proxy_host forced_gevent_proxy_request) \<and>
   URL_of example_env (uri forced_gevent_proxy_request) = Inr example_url \<and>
   scheme example_url = PROTO_HTTPS \<and>
   resolve_impl forced_gevent_proxy_request example_url = HTTP_IMPL_URLLIB3 \<and>
   HTTP_IMPL_URLLIB3 \<noteq> HTTP_IMPL_GEVENT \<and>
   map_sum id http_implementation
     (fst (call_go_http example_env HttpClient_init forced_gevent_proxy_request))
     = Inr HTTP_IMPL_URLLIB3"
  by (simp add: run_defs example_defs)

text \<open>
  C2, amended. With a proxy host set and an https URI the request is resolved to
  Backend B, whatever backend it forces; otherwise a forced backend is used verbatim;
  and a request that forces none is resolved to Backend B.
\<close>

theorem resolve_impl_law:
  "(truthy (http_proxy_host rq) \<and> scheme url = PROTO_HTTPS \<longrightarrow>
      resolve_impl rq url = HTTP_IMPL_URLLIB3) \<and>
   (\<not> (truthy (http_proxy_host rq) \<and> scheme url = PROTO_HTTPS) \<longrightarrow>
      force_http_implementation rq \<noteq> HTTP_IMPL_AUTO \<longrightarrow>
      resolve_impl rq url = force_http_implementation rq) \<and>
   (force_http_implementation rq = HTTP_IMPL_AUTO \<longrightarrow>
      resolve_impl rq url = HTTP_IMPL_URLLIB3)"
  by (simp add: resolve_impl_def Let_def)

theorem resolve_impl_law_witness:
  "truthy (http_proxy_host forced_gevent_proxy_request) \<and> scheme example_url = PROTO_HTTPS \<and>
   resolve_impl forced_gevent_proxy_request example_url = HTTP_IMPL_URLLIB3 \<and>
   \<not> (truthy (http_proxy_host forced_gevent_request) \<and> scheme example_url = PROTO_HTTPS) \<and>
   force_http_implementation forced_gevent_request \<noteq> HTTP_IMPL_AUTO \<and>
   resolve_impl forced_gevent_request example_url = HTTP_IMPL_GEVENT \<and>
   force_http_implementation example_request = HTTP_IMPL_AUTO \<and>
   resolve_impl example_request example_url = HTTP_IMPL_URLLIB3 \<and>
   map_sum id http_implementation
     (fst (call_go_http example_env HttpClient_init forced_gevent_request))
     = Inr HTTP_IMPL_GEVENT"
proof -
  have h1: "truthy (http_proxy_host forced_gevent_proxy_request) \<and> scheme example_url = PROTO_HTTPS"
    by (simp add: example_defs PROTO_HTTPS_def)
  have h2: "\<not> (truthy (http_proxy_host forced_gevent_request) \<and> scheme example_url = PROTO_HTTPS)"
    by (simp add: example_defs)
  have h3: "force_http_implementation forced_gevent_request \<noteq> HTTP_IMPL_AUTO"
    by (simp add: example_defs HTTP_IMPL_AUTO_def HTTP_IMPL_GEVENT_def)
  have h4: "force_http_implementation example_request = HTTP_IMPL_AUTO"
    by (simp add: example_defs HTTP_IMPL_AUTO_def)
  have f: "force_http_implementation forced_gevent_request = HTTP_IMPL_GEVENT"
    by (simp add: example_defs)
  have run: "map_sum id http_implementation
     (fst (call_go_http example_env HttpClient_init forced_gevent_request))
     = Inr HTTP_IMPL_GEVENT"
    by (simp add: run_defs example_defs)
  show ?thesis
    using h1 h2 h3 h4 f run
      resolve_impl_law [of forced_gevent_proxy_request example_url]
      resolve_impl_law [of forced_gevent_request example_url]
      resolve_impl_law [of example_request example_url]
    by simp
qed

section \<open>The shared pool of Backend B\<close>

text \<open>
  C9. For a request with no proxy host (\<^verbatim>\<open>None\<close> or empty), whatever its other
  fields, \<^verbatim>\<open>urllib3_from_pool\<close> answers the object held in \<^verbatim>\<open>_u3_basic_pool\<close>
  (unless the deadline strikes at its switch) and leaves the client as it was: the proxy
  registry, its lock and the allocation counter are untouched. That object is the
  \<^verbatim>\<open>PoolManager\<close> made by the constructor, whatever calls of \<^verbatim>\<open>go_http\<close>
  came before.
\<close>

theorem urllib3_from_pool_shared:
  assumes "\<not> truthy (http_proxy_host rq)"
  shows "fst (urllib3_from_pool e rq s) =
           (if timeout_at e = Some (switches s) then Inl Timeout
            else Inr (u3_basic_pool (client s))) \<and>
         client (snd (urllib3_from_pool e rq s)) = client s \<and>
         u3_basic_pool (run_calls calls HttpClient_init) = (0, PoolManager 1024 1024)"
  using assms by (simp add: urllib3_from_pool_basic run_calls_basic_pool)

theorem urllib3_from_pool_shared_witness:
  "\<not> truthy (http_proxy_host example_request) \<and>
   fst (urllib3_from_pool example_env example_request example_state)
     = Inr (0, PoolManager 1024 1024) \<and>
   fst (urllib3_from_pool example_env
          (example_request\<lparr>uri := ''http://other.example:8080/'', connection_timeout_ms := 1,
                           network_timeout_ms := 2, http_concurrency := 3\<rparr>)
          (example_state\<lparr>client := run_calls [(example_env, proxy_request)] HttpClient_init\<rparr>))
     = Inr (0, PoolManager 1024 1024)"
proof -
  have h1: "\<not> truthy (http_proxy_host example_request)"
    by (simp add: example_defs)
  have h2: "\<not> truthy (http_proxy_host
              (example_request\<lparr>uri := ''http://other.example:8080/'', connection_timeout_ms := 1,
                               network_timeout_ms := 2, http_concurrency := 3\<rparr>))"
    by (simp add: example_defs)
  show ?thesis
    using h1
      urllib3_from_pool_shared [OF h1, of example_env example_state "[]"]
      urllib3_from_pool_shared [OF h2, of example_env
        "example_state\<lparr>client := run_calls [(example_env, proxy_request)] HttpClient_init\<rparr>"
        "[(example_env, proxy_request)]"]
    by (simp add: example_env_def example_state_def HttpClient_init_def)
qed

section \<open>The registry of Backend A: keys by whole seconds\<close>







section \<open>The registries are bounded\<close>

lemma full_client_gevent_absent:
  "map_of (gevent_pool full_client) (gevent_key example_url example_request) = None"
  by (auto simp: map_of_eq_None_iff full_client_def gevent_key_def example_url_def)

lemma full_client_u3_absent:
  "map_of (u3_proxy_pool full_client) (u3_key proxy_request) = None"
  by (auto simp: map_of_eq_None_iff full_client_def u3_key_def proxy_request_def
      str_opt_str_def)

lemma full_client_sizes:
  "length (gevent_pool full_client) = 1024" "length (u3_proxy_pool full_client) = 1024"
  "gevent_pool_max full_client = 1024" "u3_proxy_pool_max full_client = 1024"
  by (simp_all add: full_client_def HttpClient_init_def)

text \<open>
  C4. After any sequence of calls of \<^verbatim>\<open>go_http\<close> on a new client, either registry
  holds at most 1024 entries, and a direct call of \<^verbatim>\<open>gevent_from_pool\<close> or
  \<^verbatim>\<open>urllib3_from_pool\<close> keeps that bound (with capacities 1024 and no key twice).
  A lookup whose key is present answers the stored entry and changes nothing in the
  client (it raises nothing of its own; only the deadline can strike at its switch). A
  lookup whose key is new, in a registry whose size has reached its capacity, raises the
  "pool maxed" exception and leaves the registry as it was.
\<close>

theorem registries_bounded:
  "length (gevent_pool (run_calls calls HttpClient_init)) \<le> 1024 \<and>
   length (u3_proxy_pool (run_calls calls HttpClient_init)) \<le> 1024 \<and>
   (pool_inv (client s) \<longrightarrow>
      pool_inv (client (snd (gevent_from_pool e url rq s))) \<and>
      pool_inv (client (snd (urllib3_from_pool e rq s)))) \<and>
   (\<forall>h. map_of (gevent_pool (client s)) (gevent_key url rq) = Some h \<longrightarrow>
      fst (gevent_from_pool e url rq s) =
        (if timeout_at e = Some (switches s) then Inl Timeout else Inr h) \<and>
      client (snd (gevent_from_pool e url rq s)) = client s) \<and>
   (\<forall>p. truthy (http_proxy_host rq) \<longrightarrow>
      map_of (u3_proxy_pool (client s)) (u3_key rq) = Some p \<longrightarrow>
      fst (urllib3_from_pool e rq s) =
        (if timeout_at e = Some (switches s) then Inl Timeout else Inr p) \<and>
      client (snd (urllib3_from_pool e rq s)) = client s) \<and>
   (map_of (gevent_pool (client s)) (gevent_key url rq) = None \<longrightarrow>
      gevent_pool_max (client s) \<le> length (gevent_pool (client s)) \<longrightarrow>
      fst (gevent_from_pool e url rq s) =
        Inl (Exception ''gevent pool maxed, cur={0}, max={1}''
               [PyInt (int (length (gevent_pool (client s)))),
                PyInt (int (gevent_pool_max (client s)))]) \<and>
      gevent_pool (client (snd (gevent_from_pool e url rq s))) = gevent_pool (client s)) \<and>
   (truthy (http_proxy_host rq) \<longrightarrow>
      map_of (u3_proxy_pool (client s)) (u3_key rq) = None \<longrightarrow>
      u3_proxy_pool_max (client s) \<le> length (u3_proxy_pool (client s)) \<longrightarrow>
      fst (urllib3_from_pool e rq s) =
        Inl (Exception ''u3 pool maxed, cur={0}, max={1}''
               [PyInt (int (length (u3_proxy_pool (client s)))),
                PyInt (int (u3_proxy_pool_max (client s)))]) \<and>
      u3_proxy_pool (client (snd (urllib3_from_pool e rq s))) = u3_proxy_pool (client s))"
proof -
  have inv: "pool_inv (run_calls calls HttpClient_init)"
    by (rule run_calls_pool_inv)
  have 1: "length (gevent_pool (run_calls calls HttpClient_init)) \<le> 1024"
    and 2: "length (u3_proxy_pool (run_calls calls HttpClient_init)) \<le> 1024"
    using inv by (simp_all add: pool_inv_def)
  have 3: "pool_inv (client s) \<longrightarrow>
      pool_inv (client (snd (gevent_from_pool e url rq s))) \<and>
      pool_inv (client (snd (urllib3_from_pool e rq s)))"
    using gevent_from_pool_inv [of e url rq] urllib3_from_pool_inv [of e rq]
    by (simp add: stable_def)
  have 4: "\<forall>h. map_of (gevent_pool (client s)) (gevent_key url rq) = Some h \<longrightarrow>
      fst (gevent_from_pool e url rq s) =
        (if timeout_at e = Some (switches s) then Inl Timeout else Inr h) \<and>
      client (snd (gevent_from_pool e url rq s)) = client s"
    by (simp add: gevent_from_pool_hit)
  have 5: "\<forall>p. truthy (http_proxy_host rq) \<longrightarrow>
      map_of (u3_proxy_pool (client s)) (u3_key rq) = Some p \<longrightarrow>
      fst (urllib3_from_pool e rq s) =
        (if timeout_at e = Some (switches s) then Inl Timeout else Inr p) \<and>
      client (snd (urllib3_from_pool e rq s)) = client s"
    by (simp add: urllib3_from_pool_hit)
  have 6: "map_of (gevent_pool (client s)) (gevent_key url rq) = None \<longrightarrow>
      gevent_pool_max (client s) \<le> length (gevent_pool (client s)) \<longrightarrow>
      fst (gevent_from_pool e url rq s) =
        Inl (Exception ''gevent pool maxed, cur={0}, max={1}''
               [PyInt (int (length (gevent_pool (client s)))),
                PyInt (int (gevent_pool_max (client s)))]) \<and>
      gevent_pool (client (snd (gevent_from_pool e url rq s))) = gevent_pool (client s)"
    by (simp add: gevent_from_pool_maxed)
  have 7: "truthy (http_proxy_host rq) \<longrightarrow>
      map_of (u3_proxy_pool (client s)) (u3_key rq) = None \<longrightarrow>
      u3_proxy_pool_max (client s) \<le> length (u3_proxy_pool (client s)) \<longrightarrow>
      fst (urllib3_from_pool e rq s) =
        Inl (Exception ''u3 pool maxed, cur={0}, max={1}''
               [PyInt (int (length (u3_proxy_pool (client s)))),
                PyInt (int (u3_proxy_pool_max (client s)))]) \<and>
      u3_proxy_pool (client (snd (urllib3_from_pool e rq s))) = u3_proxy_pool (client s)"
    by (simp add: urllib3_from_pool_maxed)
  from 1 2 3 4 5 6 7 show ?thesis by blast
qed

theorem registries_bounded_witness:
  "pool_inv (client example_state) \<and>
   pool_inv (client (snd (gevent_from_pool example_env example_url example_request example_state))) \<and>
   map_of (gevent_pool (client (snd (gevent_from_pool example_env example_url example_request
             example_state)))) (gevent_key example_url example_request)
     = Some (1, HTTPClient_from_url example_url example_request) \<and>
   fst (gevent_from_pool example_env example_url example_request
          (snd (gevent_from_pool example_env example_url example_request example_state)))
     = Inr (1, HTTPClient_from_url example_url example_request) \<and>
   truthy (http_proxy_host proxy_request) \<and>
   map_of (u3_proxy_pool (client (snd (urllib3_from_pool example_env proxy_request
             example_state)))) (u3_key proxy_request)
     = Some (1, ProxyManager 1024 1024 ''http://proxy:3128'') \<and>
   fst (urllib3_from_pool example_env proxy_request
          (snd (urllib3_from_pool example_env proxy_request example_state)))
     = Inr (1, ProxyManager 1024 1024 ''http://proxy:3128'') \<and>
   map_of (gevent_pool full_client) (gevent_key example_url example_request) = None \<and>
   gevent_pool_max full_client \<le> length (gevent_pool full_client) \<and>
   fst (gevent_from_pool example_env example_url example_request
          (example_state\<lparr>client := full_client\<rparr>))
     = Inl (Exception ''gevent pool maxed, cur={0}, max={1}'' [PyInt 1024, PyInt 1024]) \<and>
   map_of (u3_proxy_pool full_client) (u3_key proxy_request) = None \<and>
   u3_proxy_pool_max full_client \<le> length (u3_proxy_pool full_client) \<and>
   fst (urllib3_from_pool example_env proxy_request (example_state\<lparr>client := full_client\<rparr>))
     = Inl (Exception ''u3 pool maxed, cur={0}, max={1}'' [PyInt 1024, PyInt 1024])"
proof -
  let ?g1 = "snd (gevent_from_pool example_env example_url example_request example_state)"
  let ?u1 = "snd (urllib3_from_pool example_env proxy_request example_state)"
  let ?full = "example_state\<lparr>client := full_client\<rparr>"
  have inv0: "pool_inv (client example_state)"
    by (simp add: example_state_def pool_inv_init)
  have tm: "timeout_at example_env = None"
    by (simp add: example_env_def)
  have px: "truthy (http_proxy_host proxy_request)"
    by (simp add: example_defs)
  have g: "map_of (gevent_pool (client ?g1)) (gevent_key example_url example_request)
             = Some (1, HTTPClient_from_url example_url example_request)"
    by (simp add: gevent_from_pool_def Let_def bnd_def get_client_def set_client_def sleep0_def
        ret_def example_env_def example_state_def HttpClient_init_def)
  have u: "map_of (u3_proxy_pool (client ?u1)) (u3_key proxy_request)
             = Some (1, ProxyManager 1024 1024 ''http://proxy:3128'')"
    by (simp add: run_defs example_defs)
  have a1: "client ?full = full_client" by simp
  note w0 = registries_bounded [of "[]" example_state example_env example_url example_request]
  note w1 = registries_bounded [of "[]" ?g1 example_env example_url example_request]
  note w2 = registries_bounded [of "[]" ?u1 example_env example_url proxy_request]
  note w3 = registries_bounded [of "[]" ?full example_env example_url example_request]
  note w4 = registries_bounded [of "[]" ?full example_env example_url proxy_request]
  have c1: "pool_inv (client ?g1)"
    using w0 inv0 by blast
  have c2: "fst (gevent_from_pool example_env example_url example_request ?g1)
              = Inr (1, HTTPClient_from_url example_url example_request)"
    using w1 g tm by simp
  have c3: "fst (urllib3_from_pool example_env proxy_request ?u1)
              = Inr (1, ProxyManager 1024 1024 ''http://proxy:3128'')"
    using w2 u px tm by simp
  have c4: "fst (gevent_from_pool example_env example_url example_request ?full)
     = Inl (Exception ''gevent pool maxed, cur={0}, max={1}'' [PyInt 1024, PyInt 1024])"
    using w3 full_client_gevent_absent full_client_sizes by (simp add: a1)
  have c5: "fst (urllib3_from_pool example_env proxy_request ?full)
     = Inl (Exception ''u3 pool maxed, cur={0}, max={1}'' [PyInt 1024, PyInt 1024])"
    using w4 full_client_u3_absent full_client_sizes px by (simp add: a1)
  show ?thesis
    using inv0 c1 g c2 px u c3 c4 c5 full_client_gevent_absent full_client_u3_absent
      full_client_sizes
    by simp
qed


section \<open>What a run of the dispatcher's body does to the response's exception\<close>

text \<open>Only the handler of \<^verbatim>\<open>_go_http_internal\<close> and \<^verbatim>\<open>go_http\<close> write the field.\<close>

lemma stable_exc_set_response:
  "(\<And>r. exception (f r) = exception r) \<Longrightarrow>
   stable (\<lambda>s. P (exception (response s))) (set_response f)"
  by (simp add: stable_def set_response_def)

lemma stable_exc_sleep0: "stable (\<lambda>s. P (exception (response s))) (sleep0 e)"
  by (simp add: stable_def sleep0_def)

lemma stable_exc_blocking: "stable (\<lambda>s. P (exception (response s))) (blocking e r)"
  by (simp add: blocking_def stable_bnd stable_exc_sleep0 stable_lib)

lemma stable_exc_gevent_from_pool:
  "stable (\<lambda>s. P (exception (response s))) (gevent_from_pool e url rq)"
  by (simp add: stable_def gevent_from_pool_def Let_def bnd_def get_client_def set_client_def
      sleep0_def ret_def raise_def split: option.split)

lemma stable_exc_urllib3_from_pool:
  "stable (\<lambda>s. P (exception (response s))) (urllib3_from_pool e rq)"
  by (simp add: stable_def urllib3_from_pool_def Let_def bnd_def get_client_def set_client_def
      sleep0_def ret_def raise_def split: option.split)

lemmas stable_exc_rules =
  stable_bnd stable_lib stable_ret stable_raise stable_exc_sleep0 stable_exc_blocking
  stable_exc_set_response stable_exc_gevent_from_pool stable_exc_urllib3_from_pool

lemma stable_exc_go_gevent: "stable (\<lambda>s. P (exception (response s))) (go_gevent e rq)"
  unfolding go_gevent_def Let_def
  by (auto intro!: stable_exc_rules split: sum.split option.split)

lemma stable_exc_go_urllib3: "stable (\<lambda>s. P (exception (response s))) (go_urllib3 e rq)"
  unfolding go_urllib3_def Let_def
  by (auto intro!: stable_exc_rules split: sum.split option.split)

lemma stable_exc_body:
  "stable (\<lambda>s. P (exception (response s))) (go_http_internal_body e rq)"
  unfolding go_http_internal_body_def Let_def
  by (auto intro!: stable_exc_rules stable_exc_go_gevent stable_exc_go_urllib3)

lemma body_keeps_exception:
  "exception (response (snd (go_http_internal_body e rq s))) = exception (response s)"
  using stable_exc_body [of "\<lambda>x. x = exception (response s)" e rq]
  by (simp add: stable_def)

section \<open>Where the deadline can strike\<close>

lemma timeout_free_ret: "timeout_free (ret x)"
  by (simp add: timeout_free_def ret_def)

lemma timeout_free_raise: "ex \<noteq> Timeout \<Longrightarrow> timeout_free (raise ex)"
  by (simp add: timeout_free_def raise_def)

lemma timeout_free_bnd:
  "timeout_free m \<Longrightarrow> (\<And>x. timeout_free (f x)) \<Longrightarrow> timeout_free (bnd m f)"
  unfolding timeout_free_def bnd_def
proof (intro allI)
  fix s
  assume m: "\<forall>s. fst (m s) \<noteq> Inl Timeout" and f: "\<And>x. \<forall>s. fst (f x s) \<noteq> Inl Timeout"
  obtain r s' where ms: "m s = (r, s')" by (cases "m s")
  from m ms have "r \<noteq> Inl Timeout" by (metis fst_conv)
  then show "fst (case m s of (Inl e, s') \<Rightarrow> (Inl e, s') | (Inr x, s') \<Rightarrow> f x s') \<noteq> Inl Timeout"
    using f ms by (cases r) auto
qed

lemma timeout_free_lib: "timeout_free (lib r)"
  by (cases r) (simp_all add: lib_def timeout_free_ret timeout_free_raise)

lemma timeout_free_set_response: "timeout_free (set_response f)"
  by (simp add: timeout_free_def set_response_def)

lemma timeout_free_set_client: "timeout_free (set_client f)"
  by (simp add: timeout_free_def set_client_def)

lemma timeout_free_get_client: "timeout_free get_client"
  by (simp add: timeout_free_def get_client_def)

lemma timeout_free_sleep0: "timeout_at e = None \<Longrightarrow> timeout_free (sleep0 e)"
  by (simp add: timeout_free_def sleep0_def)

lemma timeout_free_blocking: "timeout_at e = None \<Longrightarrow> timeout_free (blocking e r)"
  by (simp add: blocking_def timeout_free_bnd timeout_free_sleep0 timeout_free_lib)

lemmas timeout_free_rules =
  timeout_free_bnd timeout_free_ret timeout_free_lib timeout_free_set_response
  timeout_free_set_client timeout_free_get_client timeout_free_sleep0 timeout_free_blocking

lemma timeout_free_gevent_from_pool:
  "timeout_at e = None \<Longrightarrow> timeout_free (gevent_from_pool e url rq)"
  unfolding gevent_from_pool_def Let_def
  by (auto intro!: timeout_free_rules timeout_free_raise split: option.split)

lemma timeout_free_urllib3_from_pool:
  "timeout_at e = None \<Longrightarrow> timeout_free (urllib3_from_pool e rq)"
  unfolding urllib3_from_pool_def Let_def
  by (auto intro!: timeout_free_rules timeout_free_raise split: option.split)

lemma gevent_call_of_no_timeout: "gevent_call_of rq url \<noteq> Inl Timeout"
  by (simp add: gevent_call_of_def Let_def split: option.split)

lemma urlopen_call_of_no_timeout: "urlopen_call_of rq \<noteq> Inl Timeout"
  by (simp add: urlopen_call_of_def Let_def split: option.split)

lemma timeout_free_gevent_fire:
  "timeout_at e = None \<Longrightarrow>
   timeout_free (case gevent_call_of rq url of
                   Inl ex \<Rightarrow> raise ex
                 | Inr c \<Rightarrow> blocking e (gevent_request e http c))"
  using gevent_call_of_no_timeout [of rq url]
  by (cases "gevent_call_of rq url") (simp_all add: timeout_free_raise timeout_free_blocking)

lemma timeout_free_urlopen_fire:
  "timeout_at e = None \<Longrightarrow>
   timeout_free (case urlopen_call_of rq of
                   Inl ex \<Rightarrow> raise ex
                 | Inr c \<Rightarrow> blocking e (urlopen e conn c))"
  using urlopen_call_of_no_timeout [of rq]
  by (cases "urlopen_call_of rq") (simp_all add: timeout_free_raise timeout_free_blocking)

lemma timeout_free_go_gevent: "timeout_at e = None \<Longrightarrow> timeout_free (go_gevent e rq)"
  unfolding go_gevent_def Let_def
  by (auto intro!: timeout_free_rules timeout_free_gevent_from_pool timeout_free_gevent_fire
      timeout_free_raise split: option.split)

lemma timeout_free_go_urllib3: "timeout_at e = None \<Longrightarrow> timeout_free (go_urllib3 e rq)"
  unfolding go_urllib3_def Let_def
  by (auto intro!: timeout_free_rules timeout_free_urllib3_from_pool timeout_free_urlopen_fire
      timeout_free_raise split: option.split)

lemma timeout_free_body:
  "timeout_at e = None \<Longrightarrow> timeout_free (go_http_internal_body e rq)"
  unfolding go_http_internal_body_def Let_def
  by (auto intro!: timeout_free_rules timeout_free_go_gevent timeout_free_go_urllib3
      timeout_free_raise)

section \<open>\<^verbatim>\<open>go_http\<close> by the outcome of the dispatcher's body\<close>

lemma go_http_body_raises:
  assumes "go_http_internal_body e rq (entry_state rq s) = (Inl ex, s1)" and "ex \<noteq> Timeout"
  shows "go_http e rq s =
           (Inl ex,
            s1\<lparr>response := (response s1)
                  \<lparr>exception := Some ex,
                   elapsed_ms := Some (mscurrent_exit e - mscurrent_entry e)\<rparr>,
               switches := Suc (switches s1)\<rparr>)"
  using assms
  by (cases ex)
    (simp_all add: go_http_def go_http_internal_def entry_state_def Let_def bnd_def
      set_response_def try_finally_def try_except_def with_timeout_def sleep0_def
      no_deadline_def raise_def get_response_def)

lemma go_http_body_timeout:
  assumes "go_http_internal_body e rq (entry_state rq s) = (Inl Timeout, s1)"
  shows "go_http e rq s =
           (Inr ((response s1)
                  \<lparr>exception := Some (timeout_exception rq),
                   elapsed_ms := Some (mscurrent_exit e - mscurrent_entry e)\<rparr>),
            s1\<lparr>response := (response s1)
                  \<lparr>exception := Some (timeout_exception rq),
                   elapsed_ms := Some (mscurrent_exit e - mscurrent_entry e)\<rparr>,
               switches := Suc (switches s1)\<rparr>)"
  using assms
  by (simp add: go_http_def go_http_internal_def entry_state_def Let_def bnd_def
      set_response_def try_finally_def try_except_def with_timeout_def sleep0_def
      no_deadline_def raise_def get_response_def)

lemma go_http_body_returns:
  assumes "go_http_internal_body e rq (entry_state rq s) = (Inr u, s1)"
  shows "go_http e rq s =
           (Inr ((response s1)\<lparr>elapsed_ms := Some (mscurrent_exit e - mscurrent_entry e)\<rparr>),
            s1\<lparr>response := (response s1)
                  \<lparr>elapsed_ms := Some (mscurrent_exit e - mscurrent_entry e)\<rparr>,
               switches := Suc (Suc (switches s1))\<rparr>)"
  using assms
  by (simp add: go_http_def go_http_internal_def entry_state_def Let_def bnd_def
      set_response_def try_finally_def try_except_def with_timeout_def sleep0_def
      no_deadline_def raise_def get_response_def)

lemma entry_state_exception: "exception (response (entry_state rq s)) = None"
  by (simp add: entry_state_def HttpResponse_init_def)


section \<open>What \<^verbatim>\<open>go_http\<close> returns and what it raises\<close>





section \<open>The deadline\<close>

text \<open>
  C3, as the claim states it, fails: when the deadline strikes while Backend A reads the
  body, after the status line was received, \<^verbatim>\<open>go_http\<close> returns a response that
  holds the timeout exception and the status code 200, not 0.
\<close>

theorem timeout_keeps_status_counterexample:
  "timeout_at slow_body_env = Some 6 \<and>
   map_sum id exception (fst (call_go_http slow_body_env HttpClient_init forced_gevent_request))
     = Inr (Some (Exception ''Timeout while processing, general_timeout_sec={0}'' [PyFloat 30])) \<and>
   map_sum id status_code (fst (call_go_http slow_body_env HttpClient_init forced_gevent_request))
     = Inr 200 \<and>
   map_sum id buffer (fst (call_go_http slow_body_env HttpClient_init forced_gevent_request))
     = Inr None"
  by (simp add: run_defs example_defs)

text \<open>
  C3, amended. When the deadline's \<^verbatim>\<open>Timeout\<close> ends backend selection and
  execution, \<^verbatim>\<open>go_http\<close> returns (does not raise) the response as the backend had
  filled it up to that switch, with the exception set to the timeout exception, whose
  message carries \<^verbatim>\<open>general_timeout_sec\<close>, and with the elapsed time recorded; when
  the deadline strikes at the first switch, status code, body and content length are at
  their zero values. When the deadline does not strike, a returned response holds no
  exception.
\<close>

theorem go_http_deadline:
  "(\<forall>s1. go_http_internal_body e rq (entry_state rq s) = (Inl Timeout, s1) \<longrightarrow>
      fst (go_http e rq s) =
        Inr ((response s1)
               \<lparr>exception := Some (Exception ''Timeout while processing, general_timeout_sec={0}''
                                     [PyFloat (general_timeout_sec rq)]),
                elapsed_ms := Some (mscurrent_exit e - mscurrent_entry e)\<rparr>)) \<and>
   (timeout_at e = Some 0 \<longrightarrow> (\<forall>url. URL_of e (uri rq) = Inr url \<longrightarrow>
      fst (go_http e rq s) =
        Inr \<lparr>http_request = Some rq, http_implementation = None, status_code = 0,
             buffer = None, content_length = 0, headers = [],
             elapsed_ms = Some (mscurrent_exit e - mscurrent_entry e),
             exception = Some (Exception ''Timeout while processing, general_timeout_sec={0}''
                                 [PyFloat (general_timeout_sec rq)])\<rparr>)) \<and>
   (timeout_at e = None \<longrightarrow> (\<forall>r. fst (go_http e rq s) = Inr r \<longrightarrow> exception r = None))"
proof (intro conjI allI impI)
  fix s1
  assume "go_http_internal_body e rq (entry_state rq s) = (Inl Timeout, s1)"
  from go_http_body_timeout [OF this]
  show "fst (go_http e rq s) =
        Inr ((response s1)
               \<lparr>exception := Some (Exception ''Timeout while processing, general_timeout_sec={0}''
                                     [PyFloat (general_timeout_sec rq)]),
                elapsed_ms := Some (mscurrent_exit e - mscurrent_entry e)\<rparr>)"
    by (simp add: timeout_exception_def)
next
  fix url
  assume t: "timeout_at e = Some 0" and u: "URL_of e (uri rq) = Inr url"
  have "go_http_internal_body e rq (entry_state rq s) =
          (Inl Timeout, (entry_state rq s)\<lparr>switches := Suc 0\<rparr>)"
    using t u
    by (simp add: go_http_internal_body_def bnd_def lib_def ret_def sleep0_def entry_state_def)
  from go_http_body_timeout [OF this]
  show "fst (go_http e rq s) =
        Inr \<lparr>http_request = Some rq, http_implementation = None, status_code = 0,
             buffer = None, content_length = 0, headers = [],
             elapsed_ms = Some (mscurrent_exit e - mscurrent_entry e),
             exception = Some (Exception ''Timeout while processing, general_timeout_sec={0}''
                                 [PyFloat (general_timeout_sec rq)])\<rparr>"
    by (simp add: timeout_exception_def entry_state_def HttpResponse_init_def)
next
  fix r
  assume t: "timeout_at e = None" and r: "fst (go_http e rq s) = Inr r"
  obtain r0 s1 where b: "go_http_internal_body e rq (entry_state rq s) = (r0, s1)"
    by (cases "go_http_internal_body e rq (entry_state rq s)")
  have "fst (go_http_internal_body e rq (entry_state rq s)) \<noteq> Inl Timeout"
    using timeout_free_body [OF t, of rq] by (simp add: timeout_free_def)
  then have nt: "r0 \<noteq> Inl Timeout"
    by (simp add: b)
  show "exception r = None"
  proof (cases r0)
    case (Inl ex)
    with nt have "ex \<noteq> Timeout" by simp
    with b Inl have "fst (go_http e rq s) = Inl ex"
      by (simp add: go_http_body_raises)
    with r show ?thesis by simp
  next
    case (Inr u)
    have "exception (response (snd (go_http_internal_body e rq (entry_state rq s)))) = None"
      by (simp add: body_keeps_exception entry_state_exception)
    then have "exception (response s1) = None"
      by (simp add: b)
    with go_http_body_returns [of e rq s u s1] b Inr r show ?thesis
      by auto
  qed
qed

theorem go_http_deadline_witness:
  "fst (go_http_internal_body slow_body_env forced_gevent_request
          (entry_state forced_gevent_request example_state)) = Inl Timeout \<and>
   map_sum id exception (fst (go_http slow_body_env forced_gevent_request example_state))
     = Inr (Some (Exception ''Timeout while processing, general_timeout_sec={0}'' [PyFloat 30])) \<and>
   map_sum id elapsed_ms (fst (go_http slow_body_env forced_gevent_request example_state))
     = Inr (Some 5) \<and>
   timeout_at expired_env = Some 0 \<and>
   URL_of expired_env (uri example_request) = Inr example_url \<and>
   map_sum id status_code (fst (go_http expired_env example_request example_state)) = Inr 0 \<and>
   map_sum id buffer (fst (go_http expired_env example_request example_state)) = Inr None \<and>
   timeout_at example_env = None \<and>
   map_sum id exception (fst (go_http example_env example_request example_state)) = Inr None"
proof -
  let ?slow = "go_http_internal_body slow_body_env forced_gevent_request
                 (entry_state forced_gevent_request example_state)"
  have b1: "fst ?slow = Inl Timeout"
    by (simp add: run_defs example_defs entry_state_def)
  then have e1: "?slow = (Inl Timeout, snd ?slow)"
    by (metis prod.collapse)
  have t2: "timeout_at expired_env = Some 0"
    by (simp add: example_defs)
  have u2: "URL_of expired_env (uri example_request) = Inr example_url"
    by (simp add: example_defs)
  have t3: "timeout_at example_env = None"
    by (simp add: example_defs)
  have ok: "fst (go_http example_env example_request example_state) =
              Inr (projr (fst (go_http example_env example_request example_state)))"
    by (simp add: run_defs example_defs)
  have sec: "general_timeout_sec forced_gevent_request = 30"
    by (simp add: general_timeout_sec_def example_defs)
  have ms: "mscurrent_exit slow_body_env - mscurrent_entry slow_body_env = 5"
    by (simp add: example_defs)
  have c1: "fst (go_http slow_body_env forced_gevent_request example_state) =
        Inr ((response (snd ?slow))
               \<lparr>exception := Some (Exception ''Timeout while processing, general_timeout_sec={0}''
                                     [PyFloat (general_timeout_sec forced_gevent_request)]),
                elapsed_ms := Some (mscurrent_exit slow_body_env - mscurrent_entry slow_body_env)\<rparr>)"
    using go_http_deadline [of slow_body_env forced_gevent_request example_state] e1 by blast
  have c2: "fst (go_http expired_env example_request example_state) =
        Inr \<lparr>http_request = Some example_request, http_implementation = None, status_code = 0,
             buffer = None, content_length = 0, headers = [],
             elapsed_ms = Some (mscurrent_exit expired_env - mscurrent_entry expired_env),
             exception = Some (Exception ''Timeout while processing, general_timeout_sec={0}''
                                 [PyFloat (general_timeout_sec example_request)])\<rparr>"
    using go_http_deadline [of expired_env example_request example_state] t2 u2 by blast
  have c3: "exception (projr (fst (go_http example_env example_request example_state))) = None"
    using go_http_deadline [of example_env example_request example_state] t3 ok by blast
  have c3': "map_sum id exception (fst (go_http example_env example_request example_state))
               = Inr None"
    using ok c3 by (metis map_sum.simps(2))
  show ?thesis
    using b1 t2 u2 t3 c3' by (simp add: c1 c2 sec ms)
qed


section \<open>Content length\<close>

lemma bnd_InrE:
  assumes "bnd m f s = (Inr y, s')"
  obtains x s1 where "m s = (Inr x, s1)" and "f x s1 = (Inr y, s')"
  using assms by (auto simp: bnd_def split: prod.splits sum.splits)

lemma lib_InrD: "lib r s = (Inr x, s') \<Longrightarrow> r = Inr x"
  by (cases r) (simp_all add: lib_def raise_def ret_def)

lemma sleep0_InrD: "sleep0 e s = (Inr x, s') \<Longrightarrow> response s' = response s"
  by (auto simp: sleep0_def)

lemma blocking_InrD:
  "blocking e r s = (Inr x, s') \<Longrightarrow> r = Inr x \<and> response s' = response s"
  unfolding blocking_def
  by (erule bnd_InrE) (auto simp: lib_def raise_def ret_def dest: sleep0_InrD split: sum.splits)

lemma set_response_InrD:
  "set_response f s = (Inr x, s') \<Longrightarrow> response s' = f (response s)"
  by (auto simp: set_response_def)

lemma gevent_fire_InrD:
  assumes "(case gevent_call_of rq url of
              Inl ex \<Rightarrow> raise ex
            | Inr c \<Rightarrow> blocking e (gevent_request e http c)) s = (Inr x, s')"
  shows "\<exists>c. gevent_request e http c = Inr x"
  using assms
  by (cases "gevent_call_of rq url") (auto simp: raise_def dest: blocking_InrD)

lemma urlopen_fire_InrD:
  assumes "(case urlopen_call_of rq of
              Inl ex \<Rightarrow> raise ex
            | Inr c \<Rightarrow> blocking e (urlopen e conn c)) s = (Inr x, s')"
  shows "\<exists>c. urlopen e conn c = Inr x"
  using assms
  by (cases "urlopen_call_of rq") (auto simp: raise_def dest: blocking_InrD)

lemma gevent_tail_returns:
  assumes "bnd (set_response (\<lambda>r. r\<lparr>status_code := g_status_code rsp\<rparr>)) (\<lambda>_.
           bnd (blocking e (g_read rsp)) (\<lambda>buf.
           bnd (set_response (\<lambda>r. r\<lparr>buffer := Some buf\<rparr>)) (\<lambda>_.
           bnd (sleep0 e) (\<lambda>_.
           bnd (set_response (\<lambda>r. r\<lparr>content_length := gevent_content_length rsp buf\<rparr>)) (\<lambda>_.
           bnd (set_response (\<lambda>r. r\<lparr>headers := add_headers (g_headers_index rsp) (headers r)\<rparr>)) (\<lambda>_.
           sleep0 e)))))) s = (Inr u, s')"
  shows "\<exists>buf. g_read rsp = Inr buf \<and>
           status_code (response s') = g_status_code rsp \<and>
           buffer (response s') = Some buf \<and>
           content_length (response s') = gevent_content_length rsp buf"
  using assms
  by (elim bnd_InrE) (auto dest!: blocking_InrD set_response_InrD sleep0_InrD)

lemma go_gevent_returns:
  assumes "go_gevent e rq s = (Inr u, s')"
  shows "\<exists>http c rsp buf.
           gevent_request e http c = Inr (Some rsp) \<and> g_read rsp = Inr buf \<and>
           status_code (response s') = g_status_code rsp \<and>
           buffer (response s') = Some buf \<and>
           content_length (response s') = gevent_content_length rsp buf"
  using assms unfolding go_gevent_def Let_def
  apply (elim bnd_InrE)
  apply (auto split: option.splits simp: raise_def dest!: gevent_fire_InrD gevent_tail_returns)
   apply blast+
  done

lemma go_urllib3_returns:
  assumes "go_urllib3 e rq s = (Inr u, s')"
  shows "\<exists>conn c r.
           urlopen e conn c = Inr r \<and>
           status_code (response s') = u3_status r \<and>
           buffer (response s') = Some (u3_data r) \<and>
           content_length (response s') = int (length (u3_data r))"
  using assms unfolding go_urllib3_def Let_def
  apply (elim bnd_InrE)
  apply (drule urlopen_fire_InrD)
  apply (clarsimp dest!: set_response_InrD sleep0_InrD)
  apply blast
  done

text \<open>
  C8, as the claim states it, fails on Backend B: a \<^verbatim>\<open>HEAD\<close> answered with the
  header \<^verbatim>\<open>content-length: 5\<close> and no body gives a response whose content length
  is 0, the length of the body, not the length the backend reported.
\<close>

theorem urllib3_content_length_counterexample:
  "map_sum id http_implementation (fst (call_go_http head_env HttpClient_init head_request))
     = Inr HTTP_IMPL_URLLIB3 \<and>
   map_sum id headers (fst (call_go_http head_env HttpClient_init head_request))
     = Inr [(''content-length'', Single ''5'')] \<and>
   map_sum id buffer (fst (call_go_http head_env HttpClient_init head_request))
     = Inr (Some []) \<and>
   map_sum id content_length (fst (call_go_http head_env HttpClient_init head_request))
     = Inr 0"
  by (simp add: run_defs example_defs)

text \<open>
  C8, amended. When Backend A ends normally, the content length of the response is the
  length the backend reported if it reported one that is not zero, and otherwise the
  byte length of the body read (so 0 for an empty body). When Backend B ends normally,
  the content length is always the byte length of the body returned.
\<close>

theorem content_length_resolution:
  "(\<forall>u s'. go_gevent e rq s = (Inr u, s') \<longrightarrow>
      (\<exists>http c rsp buf.
         gevent_request e http c = Inr (Some rsp) \<and> g_read rsp = Inr buf \<and>
         status_code (response s') = g_status_code rsp \<and>
         buffer (response s') = Some buf \<and>
         content_length (response s') = gevent_content_length rsp buf)) \<and>
   gevent_content_length rsp buf =
     (case g_content_length rsp of
        Some n \<Rightarrow> if n \<noteq> 0 then n else int (length buf)
      | None \<Rightarrow> int (length buf)) \<and>
   (\<forall>u s'. go_urllib3 e rq s = (Inr u, s') \<longrightarrow>
      (\<exists>conn c r.
         urlopen e conn c = Inr r \<and>
         status_code (response s') = u3_status r \<and>
         buffer (response s') = Some (u3_data r) \<and>
         content_length (response s') = int (length (u3_data r))))"
proof (intro conjI allI impI)
  fix u s'
  assume "go_gevent e rq s = (Inr u, s')"
  then show "\<exists>http c rsp buf.
         gevent_request e http c = Inr (Some rsp) \<and> g_read rsp = Inr buf \<and>
         status_code (response s') = g_status_code rsp \<and>
         buffer (response s') = Some buf \<and>
         content_length (response s') = gevent_content_length rsp buf"
    by (rule go_gevent_returns)
next
  show "gevent_content_length rsp buf =
      (case g_content_length rsp of
         Some n \<Rightarrow> if n \<noteq> 0 then n else int (length buf)
       | None \<Rightarrow> int (length buf))"
    by (simp add: gevent_content_length_def split: option.split)
next
  fix u s'
  assume "go_urllib3 e rq s = (Inr u, s')"
  then show "\<exists>conn c r.
         urlopen e conn c = Inr r \<and>
         status_code (response s') = u3_status r \<and>
         buffer (response s') = Some (u3_data r) \<and>
         content_length (response s') = int (length (u3_data r))"
    by (rule go_urllib3_returns)
qed

theorem content_length_resolution_witness:
  "fst (go_gevent example_env forced_gevent_request example_state) = Inr () \<and>
   content_length (response (snd (go_gevent example_env forced_gevent_request example_state)))
     = 2 \<and>
   fst (go_urllib3 head_env head_request example_state) = Inr () \<and>
   content_length (response (snd (go_urllib3 head_env head_request example_state))) = 0"
proof -
  let ?g = "go_gevent example_env forced_gevent_request example_state"
  let ?u = "go_urllib3 head_env head_request example_state"
  let ?rsp = "\<lparr>g_status_code = 200, g_read = Inr ''ok'', g_content_length = Some 2,
               g_headers_index = [(''X-Test'', ''1'')]\<rparr>"
  have g1: "fst ?g = Inr ()"
    by (simp add: run_defs example_defs)
  then have g2: "?g = (Inr (), snd ?g)"
    by (metis prod.collapse)
  have u1: "fst ?u = Inr ()"
    by (simp add: run_defs example_defs)
  then have u2: "?u = (Inr (), snd ?u)"
    by (metis prod.collapse)
  note w1 = content_length_resolution [of example_env forced_gevent_request example_state]
  note w2 = content_length_resolution [of head_env head_request example_state]
  from w1 g2 obtain http c rsp buf where
    a: "gevent_request example_env http c = Inr (Some rsp)" and b: "g_read rsp = Inr buf"
    and cl: "content_length (response (snd ?g)) = gevent_content_length rsp buf"
    by blast
  from a have r: "rsp = ?rsp"
    by (simp add: example_env_def)
  with b have bf: "buf = ''ok''"
    by simp
  have c1: "content_length (response (snd ?g)) = 2"
    by (simp add: cl r bf gevent_content_length_def)
  from w2 u2 obtain conn c' r' where
    a': "urlopen head_env conn c' = Inr r'"
    and cl': "content_length (response (snd ?u)) = int (length (u3_data r'))"
    by blast
  from a' have "u3_data r' = []"
    by (auto simp: head_env_def example_env_def)
  with cl' have c2: "content_length (response (snd ?u)) = 0"
    by simp
  from g1 c1 u1 c2 show ?thesis by simp
qed


end
